theory Spec2Isabelle
  imports Complex_Main "HOL-Library.AList"
begin

section \<open>Python values\<close>

text \<open>
  The values that travel through the program: parsed JSON request bodies, token
  payloads and the dictionaries handed to the libraries. A dictionary is an association
  list in insertion order with distinct keys. A \<open>datetime\<close> is the number of whole
  seconds since the epoch: the token library reads the clock and the expiry at that
  granularity (\<open>timegm(utctimetuple())\<close>), so this is the clock the program observes.
\<close>

datatype pyval =
    PNone
  | PBool bool
  | PInt int
  | PFloat rat
  | PStr string
  | PList "pyval list"
  | PDict "(string \<times> pyval) list"
  | PDatetime int

type_synonym pydict = "(string \<times> pyval) list"

text \<open>An exception: its class name and the text \<open>str(e)\<close> gives.\<close>

datatype exn = Exn (exn_class: string) (exn_text: string)

text \<open>\<open>d.get(k)\<close>: the value, or \<open>None\<close> when the key is absent.\<close>

definition dict_get :: "pydict \<Rightarrow> string \<Rightarrow> pyval" where
  "dict_get d k = (case map_of d k of None \<Rightarrow> PNone | Some v \<Rightarrow> v)"

text \<open>Python truthiness, as \<open>not x\<close> and \<open>if x\<close> read it.\<close>

fun truthy :: "pyval \<Rightarrow> bool" where
  "truthy PNone = False"
| "truthy (PBool b) = b"
| "truthy (PInt i) = (i \<noteq> 0)"
| "truthy (PFloat r) = (r \<noteq> 0)"
| "truthy (PStr s) = (s \<noteq> [])"
| "truthy (PList xs) = (xs \<noteq> [])"
| "truthy (PDict d) = (d \<noteq> [])"
| "truthy (PDatetime t) = True"

section \<open>The object store\<close>

text \<open>
  Dictionaries are mutable objects, passed by reference. The store is the list of the
  dictionaries allocated so far; a reference is an index into it. \<open>dict.copy()\<close>
  allocates a new dictionary with the same entries and \<open>d.update({k: v})\<close> writes into
  the dictionary the reference points to.
\<close>

type_synonym ref = nat
type_synonym store = "pydict list"

definition dict_copy :: "store \<Rightarrow> ref \<Rightarrow> ref \<times> store" where
  "dict_copy h a = (length h, h @ [h ! a])"

definition dict_update :: "store \<Rightarrow> ref \<Rightarrow> string \<Rightarrow> pyval \<Rightarrow> store" where
  "dict_update h a k v = h[a := AList.update k v (h ! a)]"

section \<open>The token library (python-jose), as the program uses it\<close>

text \<open>
  \<open>jwt.encode\<close> and \<open>jwt.decode\<close> are library functions. The program reaches them
  through the record \<open>jwt_module\<close>, so that every statement about \<open>auth.py\<close> can be
  made for any behaviour of the library. \<open>encode\<close> receives the store and the reference
  of the claims dictionary, since the library converts the time claims of the dictionary
  it is given in place. Both functions may raise.
\<close>

record jwt_module =
  jwt_encode :: "store \<Rightarrow> ref \<Rightarrow> string \<Rightarrow> string \<Rightarrow> (exn + string) \<times> store"
  jwt_decode :: "string \<Rightarrow> string \<Rightarrow> string list \<Rightarrow> exn + pydict"

text \<open>
  A reference model of the library on compact JWS tokens
  \<open>header.payload.signature\<close>. The base64url/JSON codec of a segment, the signature
  primitive and the validation of the registered claims other than an integer \<open>exp\<close>
  are parameters: they are the library's business, not the program's.
\<close>

record jose_lib =
  b64json :: "pyval \<Rightarrow> string option"
  unb64json :: "string \<Rightarrow> pyval option"
  alg_supported :: "string \<Rightarrow> bool"
  sign :: "string \<Rightarrow> string \<Rightarrow> string \<Rightarrow> string"
  sig_ok :: "string \<Rightarrow> string \<Rightarrow> string \<Rightarrow> string \<Rightarrow> bool"
  validate_other :: "pydict \<Rightarrow> int \<Rightarrow> exn option"

text \<open>\<open>s.split(".", 1)\<close> and \<open>s.rsplit(".", 1)\<close>, \<open>None\<close> when there is no dot.\<close>

definition split_first :: "string \<Rightarrow> (string \<times> string) option" where
  "split_first s =
     (if CHR ''.'' \<in> set s
      then Some (takeWhile (\<lambda>c. c \<noteq> CHR ''.'') s, tl (dropWhile (\<lambda>c. c \<noteq> CHR ''.'') s))
      else None)"

definition split_last :: "string \<Rightarrow> (string \<times> string) option" where
  "split_last s =
     (case split_first (rev s) of
        None \<Rightarrow> None
      | Some (b, a) \<Rightarrow> Some (rev a, rev b))"

text \<open>The library turns a \<open>datetime\<close> under a time claim into its integer timestamp.\<close>

definition to_timestamp :: "string \<Rightarrow> pydict \<Rightarrow> pydict" where
  "to_timestamp k claims =
     (case map_of claims k of
        Some (PDatetime t) \<Rightarrow> AList.update k (PInt t) claims
      | _ \<Rightarrow> claims)"

definition time_claims :: "pydict \<Rightarrow> pydict" where
  "time_claims claims = fold to_timestamp [''exp'', ''iat'', ''nbf''] claims"

definition jose_header :: "string \<Rightarrow> pyval" where
  "jose_header alg = PDict [(''alg'', PStr alg), (''typ'', PStr ''JWT'')]"

definition jose_encode ::
  "jose_lib \<Rightarrow> store \<Rightarrow> ref \<Rightarrow> string \<Rightarrow> string \<Rightarrow> (exn + string) \<times> store" where
  "jose_encode lib h a key alg =
     (let claims = time_claims (h ! a);
          h' = h[a := claims]
      in if \<not> alg_supported lib alg
         then (Inl (Exn ''JWSError'' ''Algorithm not supported''), h')
         else case b64json lib (jose_header alg) of
            None \<Rightarrow> (Inl (Exn ''TypeError'' ''Object is not JSON serializable''), h')
          | Some hs \<Rightarrow>
             (case b64json lib (PDict claims) of
                None \<Rightarrow> (Inl (Exn ''TypeError'' ''Object is not JSON serializable''), h')
              | Some ps \<Rightarrow>
                  (Inr (hs @ ''.'' @ ps @ ''.'' @ sign lib alg key (hs @ ''.'' @ ps)), h')))"

definition registered_claims :: "string list" where
  "registered_claims = [''iat'', ''nbf'', ''aud'', ''iss'', ''sub'', ''jti'', ''at_hash'']"

definition validate_claims :: "jose_lib \<Rightarrow> pydict \<Rightarrow> int \<Rightarrow> exn option" where
  "validate_claims lib claims now =
     (if \<exists>k \<in> set registered_claims. map_of claims k \<noteq> None
      then validate_other lib claims now
      else case map_of claims ''exp'' of
             None \<Rightarrow> None
           | Some (PInt e) \<Rightarrow>
               (if e < now
                then Some (Exn ''ExpiredSignatureError'' ''Signature has expired.'')
                else None)
           | Some v \<Rightarrow> validate_other lib claims now)"

definition jose_decode ::
  "jose_lib \<Rightarrow> int \<Rightarrow> string \<Rightarrow> string \<Rightarrow> string list \<Rightarrow> exn + pydict" where
  "jose_decode lib now token key algs =
     (case split_last token of
        None \<Rightarrow> Inl (Exn ''JWTError'' ''Not enough segments'')
      | Some (signing_input, crypto) \<Rightarrow>
     (case split_first signing_input of
        None \<Rightarrow> Inl (Exn ''JWTError'' ''Not enough segments'')
      | Some (hseg, cseg) \<Rightarrow>
     (case unb64json lib hseg of
        Some (PDict header) \<Rightarrow>
          (case dict_get header ''alg'' of
             PStr alg \<Rightarrow>
               if alg \<notin> set algs \<or> \<not> alg_supported lib alg
               then Inl (Exn ''JWTError'' ''The specified alg value is not allowed'')
               else if \<not> sig_ok lib alg key signing_input crypto
               then Inl (Exn ''JWTError'' ''Signature verification failed.'')
               else (case unb64json lib cseg of
                       Some (PDict claims) \<Rightarrow>
                         (case validate_claims lib claims now of
                            Some e \<Rightarrow> Inl e
                          | None \<Rightarrow> Inr claims)
                     | _ \<Rightarrow> Inl (Exn ''JWTError'' ''Invalid payload string''))
           | _ \<Rightarrow> Inl (Exn ''JWTError'' ''The specified alg value is not allowed''))
      | _ \<Rightarrow> Inl (Exn ''JWTError'' ''Invalid header string''))))"

definition jose :: "jose_lib \<Rightarrow> int \<Rightarrow> jwt_module" where
  "jose lib now = \<lparr> jwt_encode = jose_encode lib, jwt_decode = jose_decode lib now \<rparr>"

text \<open>
  What the round trip needs of the codec and of the signature primitive: a segment
  carries no dot and decodes to the value it encodes, and a signature made for a
  message verifies for it.
\<close>

definition jose_ok :: "jose_lib \<Rightarrow> bool" where
  "jose_ok lib \<longleftrightarrow>
     (\<forall>v s. b64json lib v = Some s \<longrightarrow> CHR ''.'' \<notin> set s \<and> unb64json lib s = Some v) \<and>
     (\<forall>alg key m. alg_supported lib alg \<longrightarrow>
         CHR ''.'' \<notin> set (sign lib alg key m) \<and> sig_ok lib alg key m (sign lib alg key m))"

section \<open>auth.py\<close>

text \<open>The module constants, read from the environment when the module is loaded.\<close>

record config =
  JWT_SECRET :: string
  JWT_ALGORITHM :: string
  JWT_EXPIRE_MINUTES :: int

text \<open>
  \<open>create_access_token(data)\<close>: \<open>now\<close> is \<open>datetime.utcnow()\<close>, \<open>data\<close> the reference
  of the caller's dictionary. The result is what \<open>jwt.encode\<close> returns or raises, and
  the store after the call.
\<close>

definition create_access_token ::
  "jwt_module \<Rightarrow> config \<Rightarrow> int \<Rightarrow> store \<Rightarrow> ref \<Rightarrow> (exn + string) \<times> store" where
  "create_access_token jwt cfg now h data =
     (let (to_encode, h1) = dict_copy h data;
          expire = PDatetime (now + 60 * JWT_EXPIRE_MINUTES cfg);
          h2 = dict_update h1 to_encode ''exp'' expire
      in jwt_encode jwt h2 to_encode (JWT_SECRET cfg) (JWT_ALGORITHM cfg))"

text \<open>\<open>decode_token(token)\<close>: the bare \<open>except\<close> turns every exception into \<open>None\<close>.\<close>

definition decode_token :: "jwt_module \<Rightarrow> config \<Rightarrow> string \<Rightarrow> pydict option" where
  "decode_token jwt cfg token =
     (case jwt_decode jwt token (JWT_SECRET cfg) [JWT_ALGORITHM cfg] of
        Inr payload \<Rightarrow> Some payload
      | Inl e \<Rightarrow> None)"

text \<open>
  \<open>verify_password(plain, hashed)\<close>: \<open>bcrypt.checkpw\<close> is the parameter \<open>checkpw\<close>; it
  raises on a stored hash that is not a bcrypt hash.
\<close>

definition verify_password :: "(string \<Rightarrow> string \<Rightarrow> exn + bool) \<Rightarrow> string \<Rightarrow> string \<Rightarrow> exn + bool" where
  "verify_password checkpw plain hashed = checkpw plain hashed"

section \<open>The database client (Prisma), as the program uses it\<close>

text \<open>
  The tables the program reads and writes. A row carries its primary key, the key of
  its owning user and the values the handler passed to \<open>create\<close>; columns the store
  fills by itself are outside the handlers and are left out. Primary keys are integers
  given out in sequence, and no operation of the program updates or deletes a row.
\<close>

record user =
  u_id :: int
  u_username :: string
  u_email :: string
  u_phoneNumber :: string
  u_password :: string

record expense =
  e_id :: int
  e_userId :: int
  e_category :: pyval
  e_amount :: pyval
  e_note :: pyval
  e_recurring :: pyval

record savingsjar =
  j_id :: int
  j_userId :: int
  j_name :: pyval
  j_goal :: pyval
  j_description :: pyval
  j_progress :: pyval

record reminder =
  r_id :: int
  r_userId :: int
  r_name :: pyval
  r_amount :: pyval
  r_dueDate :: pyval

record prisma =
  connected :: bool
  users :: "user list"
  expenses :: "expense list"
  savingsjars :: "savingsjar list"
  reminders :: "reminder list"

text \<open>
  The schema file of the store is not among the sources. What it demands of the data
  given to \<open>create\<close> is the parameter \<open>schema\<close>: for a model name and a data
  dictionary, the text of the error the client raises, or \<open>None\<close> when it accepts.
\<close>

type_synonym schema = "string \<Rightarrow> pydict \<Rightarrow> string option"

definition not_connected :: exn where
  "not_connected = Exn ''ClientNotConnectedError'' ''Client is not connected to the query engine''"

definition user_find_unique_id :: "prisma \<Rightarrow> pyval \<Rightarrow> exn + user option" where
  "user_find_unique_id db v =
     (if \<not> connected db then Inl not_connected
      else case v of
             PInt i \<Rightarrow> Inr (find (\<lambda>u. u_id u = i) (users db))
           | _ \<Rightarrow> Inl (Exn ''DataError'' ''Invalid value for field id''))"

definition user_find_unique_username :: "prisma \<Rightarrow> pyval \<Rightarrow> exn + user option" where
  "user_find_unique_username db v =
     (if \<not> connected db then Inl not_connected
      else case v of
             PStr s \<Rightarrow> Inr (find (\<lambda>u. u_username u = s) (users db))
           | _ \<Rightarrow> Inl (Exn ''DataError'' ''Invalid value for field username''))"

definition expense_find_many :: "prisma \<Rightarrow> pyval \<Rightarrow> exn + expense list" where
  "expense_find_many db v =
     (if \<not> connected db then Inl not_connected
      else case v of
             PInt i \<Rightarrow> Inr (filter (\<lambda>e. e_userId e = i) (expenses db))
           | _ \<Rightarrow> Inl (Exn ''DataError'' ''Invalid value for field userId''))"

definition savingsjar_find_many :: "prisma \<Rightarrow> pyval \<Rightarrow> exn + savingsjar list" where
  "savingsjar_find_many db v =
     (if \<not> connected db then Inl not_connected
      else case v of
             PInt i \<Rightarrow> Inr (filter (\<lambda>j. j_userId j = i) (savingsjars db))
           | _ \<Rightarrow> Inl (Exn ''DataError'' ''Invalid value for field userId''))"

definition reminder_find_many :: "prisma \<Rightarrow> pyval \<Rightarrow> exn + reminder list" where
  "reminder_find_many db v =
     (if \<not> connected db then Inl not_connected
      else case v of
             PInt i \<Rightarrow> Inr (filter (\<lambda>r. r_userId r = i) (reminders db))
           | _ \<Rightarrow> Inl (Exn ''DataError'' ''Invalid value for field userId''))"

definition expense_create :: "schema \<Rightarrow> prisma \<Rightarrow> pydict \<Rightarrow> exn + expense \<times> prisma" where
  "expense_create sch db data =
     (if \<not> connected db then Inl not_connected
      else case sch ''Expense'' data of
             Some msg \<Rightarrow> Inl (Exn ''DataError'' msg)
           | None \<Rightarrow>
              (case dict_get data ''userId'' of
                 PInt uid \<Rightarrow>
                   (let row = \<lparr> e_id = int (length (expenses db)) + 1,
                                e_userId = uid,
                                e_category = dict_get data ''category'',
                                e_amount = dict_get data ''amount'',
                                e_note = dict_get data ''note'',
                                e_recurring = dict_get data ''recurring'' \<rparr>
                    in Inr (row, db\<lparr>expenses := expenses db @ [row]\<rparr>))
               | _ \<Rightarrow> Inl (Exn ''DataError'' ''Invalid value for field userId'')))"

definition savingsjar_create :: "schema \<Rightarrow> prisma \<Rightarrow> pydict \<Rightarrow> exn + savingsjar \<times> prisma" where
  "savingsjar_create sch db data =
     (if \<not> connected db then Inl not_connected
      else case sch ''SavingsJar'' data of
             Some msg \<Rightarrow> Inl (Exn ''DataError'' msg)
           | None \<Rightarrow>
              (case dict_get data ''userId'' of
                 PInt uid \<Rightarrow>
                   (let row = \<lparr> j_id = int (length (savingsjars db)) + 1,
                                j_userId = uid,
                                j_name = dict_get data ''name'',
                                j_goal = dict_get data ''goal'',
                                j_description = dict_get data ''description'',
                                j_progress = dict_get data ''progress'' \<rparr>
                    in Inr (row, db\<lparr>savingsjars := savingsjars db @ [row]\<rparr>))
               | _ \<Rightarrow> Inl (Exn ''DataError'' ''Invalid value for field userId'')))"

definition reminder_create :: "schema \<Rightarrow> prisma \<Rightarrow> pydict \<Rightarrow> exn + reminder \<times> prisma" where
  "reminder_create sch db data =
     (if \<not> connected db then Inl not_connected
      else case sch ''Reminder'' data of
             Some msg \<Rightarrow> Inl (Exn ''DataError'' msg)
           | None \<Rightarrow>
              (case dict_get data ''userId'' of
                 PInt uid \<Rightarrow>
                   (let row = \<lparr> r_id = int (length (reminders db)) + 1,
                                r_userId = uid,
                                r_name = dict_get data ''name'',
                                r_amount = dict_get data ''amount'',
                                r_dueDate = dict_get data ''dueDate'' \<rparr>
                    in Inr (row, db\<lparr>reminders := reminders db @ [row]\<rparr>))
               | _ \<Rightarrow> Inl (Exn ''DataError'' ''Invalid value for field userId'')))"

section \<open>main.py\<close>

text \<open>
  What a request ends in when it does not return: an \<open>HTTPException\<close> the handler
  raised, with its status code and detail, or an exception no handler caught, which the
  framework answers with a bare status 500.
\<close>

datatype fault = HTTPException (status_code: nat) (detail: string) | Unhandled exn

definition no_attribute :: "string \<Rightarrow> fault" where
  "no_attribute name = Unhandled (Exn ''AttributeError'' (''object has no attribute '' @ name))"

text \<open>
  \<open>startup\<close> and \<open>shutdown\<close> connect and disconnect the client; a query on a client
  that is not connected raises.
\<close>

definition startup :: "prisma \<Rightarrow> prisma" where
  "startup db = db\<lparr>connected := True\<rparr>"

definition shutdown :: "prisma \<Rightarrow> prisma" where
  "shutdown db = db\<lparr>connected := False\<rparr>"

text \<open>\<open>get_current_user(token)\<close>, the dependency of every authenticated route.\<close>

definition get_current_user :: "jwt_module \<Rightarrow> config \<Rightarrow> prisma \<Rightarrow> string \<Rightarrow> fault + user" where
  "get_current_user jwt cfg db token =
     (case decode_token jwt cfg token of
        None \<Rightarrow> Inl (HTTPException 401 ''Invalid token'')
      | Some payload \<Rightarrow>
          if \<not> truthy (PDict payload) then Inl (HTTPException 401 ''Invalid token'')
          else case user_find_unique_id db (dict_get payload ''user_id'') of
                 Inl e \<Rightarrow> Inl (Unhandled e)
               | Inr None \<Rightarrow> Inl (HTTPException 401 ''User not found'')
               | Inr (Some user) \<Rightarrow> Inr user)"

text \<open>
  \<open>login\<close>: \<open>body\<close> is the parsed JSON of the request, \<open>now\<close> the clock. The claim
  dictionary \<open>{"user_id": user.id}\<close> is a fresh object handed to
  \<open>create_access_token\<close>.
\<close>

definition login ::
  "(string \<Rightarrow> string \<Rightarrow> exn + bool) \<Rightarrow> jwt_module \<Rightarrow> config \<Rightarrow> int \<Rightarrow> prisma \<Rightarrow> pyval \<Rightarrow> fault + pydict" where
  "login checkpw jwt cfg now db body =
     (case body of
        PDict d \<Rightarrow>
          (let username = dict_get d ''username'';
               password = dict_get d ''password''
           in if \<not> truthy username \<or> \<not> truthy password
              then Inl (HTTPException 400 ''Username and password are required.'')
              else case user_find_unique_username db username of
                     Inl e \<Rightarrow> Inl (Unhandled e)
                   | Inr None \<Rightarrow> Inl (HTTPException 401 ''Invalid credentials'')
                   | Inr (Some user) \<Rightarrow>
                      (case password of
                         PStr plain \<Rightarrow>
                           (case verify_password checkpw plain (u_password user) of
                              Inl e \<Rightarrow> Inl (Unhandled e)
                            | Inr False \<Rightarrow> Inl (HTTPException 401 ''Invalid credentials'')
                            | Inr True \<Rightarrow>
                               (case fst (create_access_token jwt cfg now
                                            [[(''user_id'', PInt (u_id user))]] 0) of
                                  Inl e \<Rightarrow> Inl (Unhandled e)
                                | Inr token \<Rightarrow>
                                    Inr [(''access_token'', PStr token),
                                         (''token_type'', PStr ''bearer'')]))
                       | _ \<Rightarrow> Inl (no_attribute ''encode'')))
      | _ \<Rightarrow> Inl (no_attribute ''get''))"

text \<open>
  The creators. Each returns the response dictionary and the store after the call, or
  the fault it ends in; a fault leaves the store as it was.
\<close>

definition add_expense :: "schema \<Rightarrow> prisma \<Rightarrow> pyval \<Rightarrow> user \<Rightarrow> fault + pydict \<times> prisma" where
  "add_expense sch db body current_user =
     (case body of
        PDict d \<Rightarrow>
          (let category = dict_get d ''category'';
               amount = dict_get d ''amount'';
               note = dict_get d ''note'';
               recurring = dict_get d ''recurring'';
               user_id = u_id current_user
           in if \<not> truthy (PInt user_id)
              then Inl (HTTPException 400 ''User ID not found in token.'')
              else case expense_create sch db
                          [(''userId'', PInt user_id), (''category'', category),
                           (''amount'', amount), (''note'', note), (''recurring'', recurring)] of
                     Inr (expense, db') \<Rightarrow>
                       Inr ([(''message'', PStr ''Expense added successfully''),
                             (''expense_id'', PInt (e_id expense))], db')
                   | Inl e \<Rightarrow> Inl (HTTPException 500 (exn_text e)))
      | _ \<Rightarrow> Inl (no_attribute ''get''))"

definition add_savings_jar :: "schema \<Rightarrow> prisma \<Rightarrow> pyval \<Rightarrow> user \<Rightarrow> fault + pydict \<times> prisma" where
  "add_savings_jar sch db body current_user =
     (case body of
        PDict d \<Rightarrow>
          (let name = dict_get d ''name'';
               goal = dict_get d ''goal'';
               description = dict_get d ''description'';
               progress = dict_get d ''progress''
           in case savingsjar_create sch db
                     [(''userId'', PInt (u_id current_user)), (''name'', name),
                      (''goal'', goal), (''description'', description), (''progress'', progress)] of
                Inr (savings_jar, db') \<Rightarrow>
                  Inr ([(''message'', PStr ''Savings jar added successfully''),
                        (''savings_jar_id'', PInt (j_id savings_jar))], db')
              | Inl e \<Rightarrow> Inl (HTTPException 500 (exn_text e)))
      | _ \<Rightarrow> Inl (no_attribute ''get''))"

text \<open>
  The two functions of \<open>datetime\<close> that \<open>add_reminder\<close> calls are library functions:
  \<open>fromisoformat\<close> gives \<open>None\<close> where the library raises \<open>ValueError\<close>.
\<close>

record datetime_module =
  fromisoformat :: "string \<Rightarrow> int option"
  isoformat :: "int \<Rightarrow> string"

text \<open>
  \<open>due_date_str + "T00:00:00"\<close> is defined on a string only: on every other value,
  \<open>None\<close> among them, the operator raises \<open>TypeError\<close>, which the
  \<open>except ValueError\<close> that follows does not catch.
\<close>

definition add_reminder ::
  "datetime_module \<Rightarrow> schema \<Rightarrow> prisma \<Rightarrow> pyval \<Rightarrow> user \<Rightarrow> fault + pydict \<times> prisma" where
  "add_reminder dt sch db body current_user =
     (case body of
        PDict d \<Rightarrow>
          (let name = dict_get d ''name'';
               amount = dict_get d ''amount'';
               due_date_str = dict_get d ''due_date''
           in case due_date_str of
                PStr s \<Rightarrow>
                  (case fromisoformat dt (s @ ''T00:00:00'') of
                     None \<Rightarrow> Inl (HTTPException 400 ''Invalid date format'')
                   | Some due_date \<Rightarrow>
                      (case reminder_create sch db
                              [(''userId'', PInt (u_id current_user)), (''name'', name),
                               (''amount'', amount), (''dueDate'', PDatetime due_date)] of
                         Inr (reminder, db') \<Rightarrow>
                           Inr ([(''message'', PStr ''Reminder added successfully''),
                                 (''reminder_id'', PInt (r_id reminder)),
                                 (''due_date'', PStr (isoformat dt due_date))], db')
                       | Inl e \<Rightarrow> Inl (HTTPException 500 (exn_text e))))
              | _ \<Rightarrow> Inl (Unhandled (Exn ''TypeError'' ''unsupported operand type(s) for +'')))
      | _ \<Rightarrow> Inl (no_attribute ''get''))"

text \<open>The list operations.\<close>

definition get_reminders :: "prisma \<Rightarrow> user \<Rightarrow> fault + reminder list" where
  "get_reminders db current_user =
     (case reminder_find_many db (PInt (u_id current_user)) of
        Inr rows \<Rightarrow> Inr rows
      | Inl e \<Rightarrow> Inl (HTTPException 500 (exn_text e)))"

definition get_expenses :: "prisma \<Rightarrow> user \<Rightarrow> fault + expense list" where
  "get_expenses db current_user =
     (case expense_find_many db (PInt (u_id current_user)) of
        Inr rows \<Rightarrow> Inr rows
      | Inl e \<Rightarrow> Inl (HTTPException 500 (exn_text e)))"

definition get_savings_jars :: "prisma \<Rightarrow> user \<Rightarrow> fault + savingsjar list" where
  "get_savings_jars db current_user =
     (case savingsjar_find_many db (PInt (u_id current_user)) of
        Inr rows \<Rightarrow> Inr rows
      | Inl e \<Rightarrow> Inl (HTTPException 500 (exn_text e)))"

text \<open>
  A route with \<open>current_user = Depends(get_current_user)\<close> runs the dependency on the
  request's token first; the handler runs only on the user it returns.
\<close>

definition depends ::
  "jwt_module \<Rightarrow> config \<Rightarrow> prisma \<Rightarrow> string \<Rightarrow> (user \<Rightarrow> fault + 'a) \<Rightarrow> fault + 'a" where
  "depends jwt cfg db token handler =
     (case get_current_user jwt cfg db token of
        Inl f \<Rightarrow> Inl f
      | Inr current_user \<Rightarrow> handler current_user)"

text \<open>
  A run of \<open>add_expense\<close> requests, each by the user the gate resolved for it, stopping
  at the first fault.
\<close>

fun add_expenses :: "schema \<Rightarrow> prisma \<Rightarrow> (user \<times> pyval) list \<Rightarrow> fault + prisma" where
  "add_expenses sch db [] = Inr db"
| "add_expenses sch db ((u, body) # reqs) =
     (case add_expense sch db body u of
        Inl f \<Rightarrow> Inl f
      | Inr (resp, db') \<Rightarrow> add_expenses sch db' reqs)"

section \<open>ai_assistant.py\<close>

text \<open>
  The text Python prints for a value inside an f-string: \<open>str\<close> of a string is the
  string itself, \<open>str\<close> of a list or a dictionary is built from the \<open>repr\<close> of its
  elements. The \<open>repr\<close> of a string (quoting and escapes) and of a float, and the texts
  of a \<open>datetime\<close>, are the interpreter's and are parameters.
\<close>

record py_format =
  repr_str :: "string \<Rightarrow> string"
  repr_float :: "rat \<Rightarrow> string"
  repr_datetime :: "int \<Rightarrow> string"
  str_datetime :: "int \<Rightarrow> string"

fun py_nat :: "nat \<Rightarrow> string" where
  "py_nat n =
     (if n < 10 then [''0123456789'' ! n]
      else py_nat (n div 10) @ [''0123456789'' ! (n mod 10)])"

declare py_nat.simps [simp del]

definition py_int :: "int \<Rightarrow> string" where
  "py_int i = (if i < 0 then ''-'' @ py_nat (nat (- i)) else py_nat (nat i))"

fun join :: "string \<Rightarrow> string list \<Rightarrow> string" where
  "join sep [] = []"
| "join sep [x] = x"
| "join sep (x # y # ys) = x @ sep @ join sep (y # ys)"

fun py_repr :: "py_format \<Rightarrow> pyval \<Rightarrow> string" where
  "py_repr fmt PNone = ''None''"
| "py_repr fmt (PBool b) = (if b then ''True'' else ''False'')"
| "py_repr fmt (PInt i) = py_int i"
| "py_repr fmt (PFloat r) = repr_float fmt r"
| "py_repr fmt (PStr s) = repr_str fmt s"
| "py_repr fmt (PList xs) = ''['' @ join '', '' (map (py_repr fmt) xs) @ '']''"
| "py_repr fmt (PDict kvs) =
     ''{'' @ join '', '' (map (\<lambda>kv. repr_str fmt (fst kv) @ '': '' @ py_repr fmt (snd kv)) kvs) @ ''}''"
| "py_repr fmt (PDatetime t) = repr_datetime fmt t"

definition py_str :: "py_format \<Rightarrow> pyval \<Rightarrow> string" where
  "py_str fmt v =
     (case v of
        PStr s \<Rightarrow> s
      | PDatetime t \<Rightarrow> str_datetime fmt t
      | _ \<Rightarrow> py_repr fmt v)"

text \<open>
  \<open>requests.get(url, headers=headers)\<close> raises or returns a response: its status code
  and the JSON value of its body, \<open>None\<close> when the body is not JSON.
\<close>

record response =
  status :: nat
  json_body :: "pyval option"

type_synonym requests = "string \<Rightarrow> (string \<times> string) list \<Rightarrow> exn + response"

definition BASE_URL :: string where
  "BASE_URL = ''http://localhost:8000''"

text \<open>
  One fetch of \<open>get_user_data\<close>: \<open>requests.get\<close>, then \<open>raise_for_status()\<close>, which
  raises on a status from 400 to 599, then \<open>json()\<close>.
\<close>

definition fetch :: "requests \<Rightarrow> string \<Rightarrow> (string \<times> string) list \<Rightarrow> exn + pyval" where
  "fetch get url headers =
     (case get url headers of
        Inl e \<Rightarrow> Inl e
      | Inr r \<Rightarrow>
          if 400 \<le> status r \<and> status r < 600 then Inl (Exn ''HTTPError'' ''Error for url'')
          else case json_body r of
                 None \<Rightarrow> Inl (Exn ''JSONDecodeError'' ''Expecting value'')
               | Some v \<Rightarrow> Inr v)"

text \<open>
  \<open>get_user_data(access_token)\<close>: both \<open>except\<close> clauses print the exception and
  return \<open>None\<close>, so every exception of the \<open>try\<close> block ends in \<open>None\<close>.
\<close>

definition get_user_data :: "requests \<Rightarrow> string \<Rightarrow> pydict option" where
  "get_user_data get access_token =
     (let headers = [(''Authorization'', ''Bearer '' @ access_token)]
      in case fetch get (BASE_URL @ ''/get_expenses'') headers of
           Inl e \<Rightarrow> None
         | Inr expenses_json \<Rightarrow>
        (case fetch get (BASE_URL @ ''/get_savings_jars'') headers of
           Inl e \<Rightarrow> None
         | Inr savings_jars_json \<Rightarrow>
        (case fetch get (BASE_URL @ ''/get_reminders'') headers of
           Inl e \<Rightarrow> None
         | Inr reminders_json \<Rightarrow>
             Some [(''expenses'', expenses_json),
                   (''savings_jars'', savings_jars_json),
                   (''reminders'', reminders_json)])))"

text \<open>
  The request sent to the completion service and the client that sends it:
  \<open>client.chat.completions.create\<close> raises or returns the contents of the messages
  of the choices, in order. The client cannot be built without an API key.
\<close>

record chat_request =
  model :: string
  messages :: "(string \<times> string) list"

type_synonym openai = "chat_request \<Rightarrow> exn + pyval list"

text \<open>
  The context block built from the fetched data, and the prompt made of it.
  \<open>user_data[k]\<close> is read with \<open>dict_get\<close>: the three keys are present in every
  dictionary \<open>get_user_data\<close> returns, so the subscript never raises.
\<close>

definition build_context :: "py_format \<Rightarrow> pydict \<Rightarrow> string" where
  "build_context fmt user_data =
     ''User Information: \<newline>'' @
     ''Expenses: '' @ py_str fmt (dict_get user_data ''expenses'') @ ''\<newline>'' @
     ''Savings Jars: '' @ py_str fmt (dict_get user_data ''savings_jars'') @ ''\<newline>'' @
     ''Reminders: '' @ py_str fmt (dict_get user_data ''reminders'') @ ''\<newline>'' @
     ''Please use this information to respond to the user's query.\<newline>''"

definition chat_request_of :: "string \<Rightarrow> chat_request" where
  "chat_request_of full_prompt =
     \<lparr> model = ''gpt-4o'',
       messages = [(''system'', ''You are a helpful personal finance assistant.''),
                   (''user'', full_prompt)] \<rparr>"

definition generate_ai_response ::
  "py_format \<Rightarrow> string option \<Rightarrow> openai \<Rightarrow> requests \<Rightarrow> string \<Rightarrow> string \<Rightarrow> exn + pyval" where
  "generate_ai_response fmt OPENAI_API_KEY create get user_prompt access_token =
     (case OPENAI_API_KEY of
        None \<Rightarrow> Inl (Exn ''OpenAIError'' ''The api_key client option must be set'')
      | Some api_key \<Rightarrow>
         (case get_user_data get access_token of
            None \<Rightarrow> Inr (PStr ''Sorry, I couldn't retrieve your data.'')
          | Some user_data \<Rightarrow>
              if \<not> truthy (PDict user_data)
              then Inr (PStr ''Sorry, I couldn't retrieve your data.'')
              else
              (let context = build_context fmt user_data;
                   full_prompt = context @ ''User Query: '' @ user_prompt
               in case create (chat_request_of full_prompt) of
                    Inl e \<Rightarrow> Inr (PStr (''An error occurred: '' @ exn_text e))
                  | Inr [] \<Rightarrow> Inr (PStr (''An error occurred: '' @ ''list index out of range''))
                  | Inr (content # choices) \<Rightarrow> Inr content)))"

definition get_response ::
  "py_format \<Rightarrow> string option \<Rightarrow> openai \<Rightarrow> requests \<Rightarrow> string \<Rightarrow> string \<Rightarrow> exn + pyval" where
  "get_response fmt OPENAI_API_KEY create get user_prompt access_token =
     generate_ai_response fmt OPENAI_API_KEY create get user_prompt access_token"

section \<open>The specification's notion of a valid token\<close>

text \<open>
  A token is accepted at a time \<open>now\<close> with payload \<open>p\<close> when it has the three
  segments of a signed token, its header names the configured algorithm, its signature
  verifies under the configured secret, its payload segment decodes to \<open>p\<close>, and the
  validation of the claims of \<open>p\<close> at \<open>now\<close>, the expiry among them, finds nothing.
\<close>

definition accepted :: "jose_lib \<Rightarrow> config \<Rightarrow> int \<Rightarrow> string \<Rightarrow> pydict \<Rightarrow> bool" where
  "accepted lib cfg now token p \<longleftrightarrow>
     (\<exists>hseg cseg crypto header.
        token = hseg @ ''.'' @ cseg @ ''.'' @ crypto \<and>
        CHR ''.'' \<notin> set hseg \<and> CHR ''.'' \<notin> set crypto \<and>
        unb64json lib hseg = Some (PDict header) \<and>
        dict_get header ''alg'' = PStr (JWT_ALGORITHM cfg) \<and>
        alg_supported lib (JWT_ALGORITHM cfg) \<and>
        sig_ok lib (JWT_ALGORITHM cfg) (JWT_SECRET cfg) (hseg @ ''.'' @ cseg) crypto \<and>
        unb64json lib cseg = Some (PDict p) \<and>
        validate_claims lib p now = None)"

section \<open>A concrete installation\<close>

text \<open>
  One token of the HS256 algorithm under the secret \<open>secret\<close>, with the segments and
  the signature the library computes for it, and an instance of the library parameters
  that knows this token and nothing else.
\<close>

definition example_header_seg :: string where
  "example_header_seg = ''eyJhbGciOiJIUzI1NiIsInR5cCI6IkpXVCJ9''"

definition example_claims_seg :: string where
  "example_claims_seg = ''eyJ1c2VyX2lkIjo3LCJleHAiOjI4MDB9''"

definition example_sig :: string where
  "example_sig = ''3t6DZ3mT4hPCGZO7vxNBTVhShRqVEzFJuXTO3RQPvIE''"

definition example_claims :: pydict where
  "example_claims = [(''user_id'', PInt 7), (''exp'', PInt 2800)]"

definition example_sign :: "string \<Rightarrow> string \<Rightarrow> string \<Rightarrow> string" where
  "example_sign alg key m =
     (if alg = ''HS256'' \<and> key = ''secret'' \<and> m = example_header_seg @ ''.'' @ example_claims_seg
      then example_sig else [])"

definition example_lib :: jose_lib where
  "example_lib = \<lparr>
     b64json = (\<lambda>v. if v = jose_header ''HS256'' then Some example_header_seg
                     else if v = PDict example_claims then Some example_claims_seg
                     else None),
     unb64json = (\<lambda>s. if s = example_header_seg then Some (jose_header ''HS256'')
                     else if s = example_claims_seg then Some (PDict example_claims)
                     else None),
     alg_supported = (\<lambda>alg. alg = ''HS256''),
     sign = example_sign,
     sig_ok = (\<lambda>alg key m s. s = example_sign alg key m),
     validate_other = (\<lambda>claims now. None) \<rparr>"

definition example_cfg :: config where
  "example_cfg = \<lparr> JWT_SECRET = ''secret'', JWT_ALGORITHM = ''HS256'', JWT_EXPIRE_MINUTES = 30 \<rparr>"

definition example_token :: string where
  "example_token = example_header_seg @ ''.'' @ example_claims_seg @ ''.'' @ example_sig"

text \<open>
  A store with two users, a schema that demands the fields a row cannot go without, a
  password check that stands for \<open>bcrypt.checkpw\<close> on the two stored values (opaque
  strings here, not bcrypt output), and the one date the examples parse.
\<close>

definition example_user :: user where
  "example_user = \<lparr> u_id = 7, u_username = ''mia'', u_email = ''m@x.com'',
                     u_phoneNumber = ''5550100'', u_password = ''bcrypt-hash-of-pw123'' \<rparr>"

definition example_other :: user where
  "example_other = \<lparr> u_id = 8, u_username = ''bob'', u_email = ''b@x.com'',
                      u_phoneNumber = ''5550101'', u_password = ''bcrypt-hash-of-hunter2'' \<rparr>"

definition example_db :: prisma where
  "example_db = \<lparr> connected = True, users = [example_user, example_other],
                   expenses = [], savingsjars = [], reminders = [] \<rparr>"

definition example_checkpw :: "string \<Rightarrow> string \<Rightarrow> exn + bool" where
  "example_checkpw plain hashed = Inr (hashed = ''bcrypt-hash-of-'' @ plain)"

definition example_schema :: schema where
  "example_schema m data =
     (let required = (if m = ''Expense'' then [''category'', ''amount'']
                      else if m = ''SavingsJar'' then [''name'', ''goal'']
                      else [''name'', ''amount'', ''dueDate''])
      in case filter (\<lambda>k. dict_get data k = PNone) required of
           [] \<Rightarrow> None
         | k # ks \<Rightarrow> Some (''Missing required value for field '' @ k))"

definition example_datetime :: datetime_module where
  "example_datetime = \<lparr>
     fromisoformat = (\<lambda>s. if s = ''2025-01-31T00:00:00'' then Some 1738281600 else None),
     isoformat = (\<lambda>t. if t = 1738281600 then ''2025-01-31T00:00:00'' else []) \<rparr>"

text \<open>
  The interpreter's texts on plain strings and integral floats, a backend that answers
  every fetch with an empty list, one whose reminders route fails, and a completion
  service that is unreachable or that answers with the user message it was sent.
\<close>

definition example_fmt :: py_format where
  "example_fmt = \<lparr>
     repr_str = (\<lambda>s. [CHR 0x27] @ s @ [CHR 0x27]),
     repr_float = (\<lambda>r. py_int \<lfloor>r\<rfloor> @ ''.0''),
     repr_datetime = py_int,
     str_datetime = py_int \<rparr>"

definition example_requests_ok :: requests where
  "example_requests_ok url headers = Inr \<lparr> status = 200, json_body = Some (PList []) \<rparr>"

definition example_requests_reminders_down :: requests where
  "example_requests_reminders_down url headers =
     (if url = BASE_URL @ ''/get_reminders''
      then Inr \<lparr> status = 500, json_body = Some (PDict [(''detail'', PStr ''Internal Server Error'')]) \<rparr>
      else Inr \<lparr> status = 200, json_body = Some (PList []) \<rparr>)"

definition example_error :: exn where
  "example_error = Exn ''APIConnectionError'' ''Connection error.''"

definition example_openai_down :: openai where
  "example_openai_down req = Inl example_error"

definition example_openai_echo :: openai where
  "example_openai_echo req = Inr (map (\<lambda>m. PStr (snd m)) (filter (\<lambda>m. fst m = ''user'') (messages req)))"

text \<open>
  Three \<open>add_expense\<close> requests, two by the first user and one by the second; the last
  one names the other user in its body. And the rows they leave in the store.
\<close>

definition example_requests :: "(user \<times> pyval) list" where
  "example_requests =
     [(example_user, PDict [(''category'', PStr ''Food''), (''amount'', PInt 12),
                            (''note'', PStr ''lunch''), (''recurring'', PBool False)]),
      (example_other, PDict [(''category'', PStr ''Rent''), (''amount'', PInt 900),
                             (''recurring'', PBool True)]),
      (example_user, PDict [(''userId'', PInt 8), (''user_id'', PInt 8),
                            (''category'', PStr ''Books''), (''amount'', PInt 30)])]"

definition example_rows :: "expense list" where
  "example_rows =
     [\<lparr> e_id = 1, e_userId = 7, e_category = PStr ''Food'', e_amount = PInt 12,
        e_note = PStr ''lunch'', e_recurring = PBool False \<rparr>,
      \<lparr> e_id = 2, e_userId = 8, e_category = PStr ''Rent'', e_amount = PInt 900,
        e_note = PNone, e_recurring = PBool True \<rparr>,
      \<lparr> e_id = 3, e_userId = 7, e_category = PStr ''Books'', e_amount = PInt 30,
        e_note = PNone, e_recurring = PNone \<rparr>]"

section \<open>Properties of the token service\<close>

subsection \<open>Splitting a token into its segments\<close>

lemma split_first_append:
  "CHR ''.'' \<notin> set a \<Longrightarrow> split_first (a @ ''.'' @ b) = Some (a, b)"
proof -
  assume a: "CHR ''.'' \<notin> set a"
  have t: "takeWhile (\<lambda>c. c \<noteq> CHR ''.'') (a @ CHR ''.'' # b) = a"
    using a by (induction a) auto
  have d: "dropWhile (\<lambda>c. c \<noteq> CHR ''.'') (a @ CHR ''.'' # b) = CHR ''.'' # b"
    using a by (induction a) auto
  show ?thesis unfolding split_first_def using t d by simp
qed

lemma split_last_append:
  "CHR ''.'' \<notin> set b \<Longrightarrow> split_last (a @ ''.'' @ b) = Some (a, b)"
proof -
  assume b: "CHR ''.'' \<notin> set b"
  have "rev (a @ ''.'' @ b) = rev b @ ''.'' @ rev a" by simp
  moreover have "split_first (rev b @ ''.'' @ rev a) = Some (rev b, rev a)"
    using b by (intro split_first_append) simp
  ultimately show ?thesis unfolding split_last_def by (simp del: rev_append)
qed

lemma split_first_Some:
  assumes "split_first s = Some (a, b)"
  shows "s = a @ ''.'' @ b \<and> CHR ''.'' \<notin> set a"
proof -
  let ?P = "\<lambda>c. c \<noteq> CHR ''.''"
  from assms have m: "CHR ''.'' \<in> set s" and a: "a = takeWhile ?P s" and b: "b = tl (dropWhile ?P s)"
    by (auto simp: split_first_def split: if_splits)
  from m have ne: "dropWhile ?P s \<noteq> []" by (auto simp: dropWhile_eq_Nil_conv)
  then have "hd (dropWhile ?P s) = CHR ''.''" using hd_dropWhile [of ?P s] by simp
  with ne have "dropWhile ?P s = CHR ''.'' # b" unfolding b by (cases "dropWhile ?P s") auto
  then have "s = a @ CHR ''.'' # b" unfolding a using takeWhile_dropWhile_id [of ?P s] by simp
  moreover have "CHR ''.'' \<notin> set a" unfolding a using set_takeWhileD [of "CHR ''.''" ?P s] by auto
  ultimately show ?thesis by simp
qed

lemma split_last_Some:
  assumes "split_last s = Some (a, b)"
  shows "s = a @ ''.'' @ b \<and> CHR ''.'' \<notin> set b"
proof -
  from assms have "split_first (rev s) = Some (rev b, rev a)"
    by (auto simp: split_last_def split: option.splits)
  from split_first_Some [OF this] have "rev s = rev b @ ''.'' @ rev a" "CHR ''.'' \<notin> set (rev b)"
    by auto
  then have "rev (rev s) = rev (rev b @ ''.'' @ rev a)" "CHR ''.'' \<notin> set b" by simp_all
  then show ?thesis by simp
qed

subsection \<open>Issuing and decoding with the reference library\<close>

lemma time_claims_exp:
  assumes "map_of d ''iat'' = None" "map_of d ''nbf'' = None"
  shows "time_claims (AList.update ''exp'' (PDatetime e) d) = AList.update ''exp'' (PInt e) d"
  using assms
  by (simp add: time_claims_def to_timestamp_def AList.update_conv' AList.update_last)

lemma validate_claims_exp:
  assumes "\<forall>k \<in> set registered_claims. map_of d k = None"
  shows "validate_claims lib (AList.update ''exp'' (PInt e) d) now =
           (if e < now then Some (Exn ''ExpiredSignatureError'' ''Signature has expired.'') else None)"
  using assms
  by (simp add: validate_claims_def registered_claims_def AList.update_conv')

lemma create_access_token_issues:
  assumes "data < length h"
    and "map_of (h ! data) ''iat'' = None" "map_of (h ! data) ''nbf'' = None"
    and "alg_supported lib (JWT_ALGORITHM cfg)"
    and "b64json lib (jose_header (JWT_ALGORITHM cfg)) = Some hs"
    and "b64json lib (PDict (AList.update ''exp'' (PInt (t0 + 60 * JWT_EXPIRE_MINUTES cfg)) (h ! data))) = Some ps"
  shows "fst (create_access_token (jose lib now) cfg t0 h data) =
           Inr (hs @ ''.'' @ ps @ ''.'' @ sign lib (JWT_ALGORITHM cfg) (JWT_SECRET cfg) (hs @ ''.'' @ ps))"
  using assms
  by (simp add: create_access_token_def jose_def jose_encode_def dict_copy_def dict_update_def
      Let_def time_claims_exp nth_append)

lemma jose_decode_issued:
  assumes ok: "jose_ok lib"
    and hs: "b64json lib (jose_header alg) = Some hs"
    and ps: "b64json lib (PDict claims) = Some ps"
    and sup: "alg_supported lib alg"
  shows "jose_decode lib now (hs @ ''.'' @ ps @ ''.'' @ sign lib alg key (hs @ ''.'' @ ps)) key [alg] =
           (case validate_claims lib claims now of Some e \<Rightarrow> Inl e | None \<Rightarrow> Inr claims)"
proof -
  let ?m = "hs @ ''.'' @ ps"
  let ?sg = "sign lib alg key ?m"
  from ok hs have hs': "CHR ''.'' \<notin> set hs" "unb64json lib hs = Some (jose_header alg)"
    by (auto simp: jose_ok_def)
  from ok ps have ps': "unb64json lib ps = Some (PDict claims)"
    by (auto simp: jose_ok_def)
  from ok sup have sg: "CHR ''.'' \<notin> set ?sg" "sig_ok lib alg key ?m ?sg"
    by (auto simp: jose_ok_def)
  have "hs @ ''.'' @ ps @ ''.'' @ ?sg = ?m @ ''.'' @ ?sg" by simp
  then have l: "split_last (hs @ ''.'' @ ps @ ''.'' @ ?sg) = Some (?m, ?sg)"
    using split_last_append [OF sg(1), of ?m] by simp
  have f: "split_first ?m = Some (hs, ps)"
    using split_first_append [OF hs'(1)] by simp
  show ?thesis
    using l f hs'(2) ps' sup sg(2)
    by (simp add: jose_decode_def jose_header_def dict_get_def)
qed

lemma jose_decode_Inr:
  assumes "jose_decode lib now token key [alg] = Inr p"
  shows "\<exists>hseg cseg crypto header.
        token = hseg @ ''.'' @ cseg @ ''.'' @ crypto \<and>
        CHR ''.'' \<notin> set hseg \<and> CHR ''.'' \<notin> set crypto \<and>
        unb64json lib hseg = Some (PDict header) \<and>
        dict_get header ''alg'' = PStr alg \<and>
        alg_supported lib alg \<and>
        sig_ok lib alg key (hseg @ ''.'' @ cseg) crypto \<and>
        unb64json lib cseg = Some (PDict p) \<and>
        validate_claims lib p now = None"
proof -
  from assms obtain si crypto where l: "split_last token = Some (si, crypto)"
    by (auto simp: jose_decode_def split: option.splits)
  from assms l obtain hseg cseg where f: "split_first si = Some (hseg, cseg)"
    by (auto simp: jose_decode_def split: option.splits)
  note L = split_last_Some [OF l] and F = split_first_Some [OF f]
  from assms l f obtain header where h: "unb64json lib hseg = Some (PDict header)"
    by (auto simp: jose_decode_def split: option.splits pyval.splits)
  from assms l f h have rest: "dict_get header ''alg'' = PStr alg" "alg_supported lib alg"
    "sig_ok lib alg key si crypto" "unb64json lib cseg = Some (PDict p)"
    "validate_claims lib p now = None"
    by (auto simp: jose_decode_def split: option.splits pyval.splits if_splits)
  show ?thesis
    using L F h rest by (intro exI [of _ hseg] exI [of _ cseg] exI [of _ crypto] exI [of _ header]) simp
qed

lemma jose_decode_accepted:
  assumes "token = hseg @ ''.'' @ cseg @ ''.'' @ crypto"
    and "CHR ''.'' \<notin> set hseg" "CHR ''.'' \<notin> set crypto"
    and "unb64json lib hseg = Some (PDict header)"
    and "dict_get header ''alg'' = PStr alg"
    and "alg_supported lib alg"
    and "sig_ok lib alg key (hseg @ ''.'' @ cseg) crypto"
    and "unb64json lib cseg = Some (PDict p)"
    and "validate_claims lib p now = None"
  shows "jose_decode lib now token key [alg] = Inr p"
proof -
  have "token = (hseg @ ''.'' @ cseg) @ ''.'' @ crypto" using assms(1) by simp
  then have l: "split_last token = Some (hseg @ ''.'' @ cseg, crypto)"
    using split_last_append [OF assms(3), of "hseg @ ''.'' @ cseg"] by simp
  have f: "split_first (hseg @ ''.'' @ cseg) = Some (hseg, cseg)"
    using split_first_append [OF assms(2)] by simp
  show ?thesis
    using l f assms(4-9) by (simp add: jose_decode_def)
qed

lemma example_lib_ok: "jose_ok example_lib"
  by (auto simp: jose_ok_def example_lib_def example_sign_def example_header_seg_def
      example_claims_seg_def example_sig_def jose_header_def example_claims_def split: if_splits)

lemma example_issue:
  "create_access_token (jose example_lib 1000) example_cfg 1000 [[(''user_id'', PInt 7)]] 0 =
     (Inr example_token, [[(''user_id'', PInt 7)], example_claims])"
  by (simp add: create_access_token_def jose_def jose_encode_def dict_copy_def dict_update_def
      time_claims_def to_timestamp_def example_lib_def example_cfg_def example_token_def
      example_sign_def example_claims_def jose_header_def example_header_seg_def example_claims_seg_def)

text \<open>
  Claim C3. For every input string \<open>decode_token\<close> returns either the payload or
  \<open>None\<close>, and nothing else: whatever the library raises, for whatever cause, the
  result is \<open>None\<close>, and the payload is returned exactly when the library returns it.
  With the reference library the payload \<open>p\<close> is returned exactly when the token is
  accepted with \<open>p\<close> (well formed, signature verified, not expired), and \<open>None\<close> is
  returned for every other string: a malformed one, one whose signature does not verify,
  one that has expired.
\<close>

theorem decode_token_uniform:
  "(decode_token jwt cfg token = None \<longleftrightarrow>
      (\<exists>e. jwt_decode jwt token (JWT_SECRET cfg) [JWT_ALGORITHM cfg] = Inl e)) \<and>
   (decode_token jwt cfg token = Some p \<longleftrightarrow>
      jwt_decode jwt token (JWT_SECRET cfg) [JWT_ALGORITHM cfg] = Inr p) \<and>
   (decode_token (jose lib now) cfg token = Some p \<longleftrightarrow> accepted lib cfg now token p) \<and>
   (decode_token (jose lib now) cfg token = None \<longleftrightarrow> (\<forall>q. \<not> accepted lib cfg now token q))"
proof -
  have a: "decode_token jwt cfg token = None \<longleftrightarrow>
      (\<exists>e. jwt_decode jwt token (JWT_SECRET cfg) [JWT_ALGORITHM cfg] = Inl e)" for jwt
    by (auto simp: decode_token_def split: sum.splits)
  have b: "decode_token jwt cfg token = Some p \<longleftrightarrow>
      jwt_decode jwt token (JWT_SECRET cfg) [JWT_ALGORITHM cfg] = Inr p" for jwt p
    by (auto simp: decode_token_def split: sum.splits)
  have c: "jose_decode lib now token (JWT_SECRET cfg) [JWT_ALGORITHM cfg] = Inr p \<longleftrightarrow>
      accepted lib cfg now token p" for p
    unfolding accepted_def
    using jose_decode_Inr [of lib now token "JWT_SECRET cfg" "JWT_ALGORITHM cfg" p]
      jose_decode_accepted [of token _ _ _ lib _ "JWT_ALGORITHM cfg" "JWT_SECRET cfg" p now]
    by blast
  have d: "decode_token (jose lib now) cfg token = Some p \<longleftrightarrow> accepted lib cfg now token p" for p
    using b [of "jose lib now" p] c [of p] by (simp add: jose_def)
  have e: "decode_token (jose lib now) cfg token = None \<longleftrightarrow> (\<forall>q. \<not> accepted lib cfg now token q)"
    using d by (cases "decode_token (jose lib now) cfg token") auto
  show ?thesis using a b d e by blast
qed

text \<open>
  Claim C5. For a claim dictionary that carries no registered claim name, with a
  supported algorithm and a header and payload the codec can encode,
  \<open>create_access_token\<close> at time \<open>t0\<close> returns a token, and that token decodes, at every
  time \<open>t\<close> up to \<open>t0\<close> plus the configured lifetime, to the claim with the expiry
  added, every entry of the claim unchanged (the user identifier among them); at every
  later time it decodes to \<open>None\<close>.
\<close>

theorem token_round_trip:
  assumes "jose_ok lib" and "data < length h"
    and "\<forall>k \<in> set registered_claims. map_of (h ! data) k = None"
    and "alg_supported lib (JWT_ALGORITHM cfg)"
    and "b64json lib (jose_header (JWT_ALGORITHM cfg)) \<noteq> None"
    and "b64json lib (PDict (AList.update ''exp'' (PInt (t0 + 60 * JWT_EXPIRE_MINUTES cfg)) (h ! data))) \<noteq> None"
  shows "\<exists>tok. fst (create_access_token (jose lib t0) cfg t0 h data) = Inr tok \<and>
           (\<forall>t. (t \<le> t0 + 60 * JWT_EXPIRE_MINUTES cfg \<longrightarrow>
                  (\<exists>p. decode_token (jose lib t) cfg tok = Some p \<and>
                       p = AList.update ''exp'' (PInt (t0 + 60 * JWT_EXPIRE_MINUTES cfg)) (h ! data) \<and>
                       (\<forall>k. k \<noteq> ''exp'' \<longrightarrow> dict_get p k = dict_get (h ! data) k))) \<and>
                (t0 + 60 * JWT_EXPIRE_MINUTES cfg < t \<longrightarrow>
                  decode_token (jose lib t) cfg tok = None))"
proof -
  let ?e = "t0 + 60 * JWT_EXPIRE_MINUTES cfg"
  let ?p = "AList.update ''exp'' (PInt ?e) (h ! data)"
  from assms(3) have nt: "map_of (h ! data) ''iat'' = None" "map_of (h ! data) ''nbf'' = None"
    by (simp_all add: registered_claims_def)
  from assms(5) obtain hs where hs: "b64json lib (jose_header (JWT_ALGORITHM cfg)) = Some hs"
    by blast
  from assms(6) obtain ps where ps: "b64json lib (PDict ?p) = Some ps"
    by blast
  let ?tok = "hs @ ''.'' @ ps @ ''.'' @ sign lib (JWT_ALGORITHM cfg) (JWT_SECRET cfg) (hs @ ''.'' @ ps)"
  have issued: "fst (create_access_token (jose lib t0) cfg t0 h data) = Inr ?tok"
    by (rule create_access_token_issues [OF assms(2) nt assms(4) hs ps])
  have dec: "jose_decode lib t ?tok (JWT_SECRET cfg) [JWT_ALGORITHM cfg] =
       (if ?e < t then Inl (Exn ''ExpiredSignatureError'' ''Signature has expired.'') else Inr ?p)" for t
    unfolding jose_decode_issued [OF assms(1) hs ps assms(4)] validate_claims_exp [OF assms(3)]
    by simp
  have get: "\<forall>k. k \<noteq> ''exp'' \<longrightarrow> dict_get ?p k = dict_get (h ! data) k"
    by (simp add: dict_get_def AList.update_conv')
  have "\<forall>t. (t \<le> ?e \<longrightarrow>
                  (\<exists>p. decode_token (jose lib t) cfg ?tok = Some p \<and> p = ?p \<and>
                       (\<forall>k. k \<noteq> ''exp'' \<longrightarrow> dict_get p k = dict_get (h ! data) k))) \<and>
                (?e < t \<longrightarrow> decode_token (jose lib t) cfg ?tok = None)"
    using dec get by (simp add: decode_token_def jose_def)
  with issued show ?thesis by blast
qed

theorem token_round_trip_witness:
  "fst (create_access_token (jose example_lib 1000) example_cfg 1000 [[(''user_id'', PInt 7)]] 0) =
     Inr example_token \<and>
   decode_token (jose example_lib 1000) example_cfg example_token = Some example_claims \<and>
   decode_token (jose example_lib 2800) example_cfg example_token = Some example_claims \<and>
   decode_token (jose example_lib 2801) example_cfg example_token = None"
proof -
  have d: "(0::nat) < length [[(''user_id'', PInt 7)]]" by simp
  have r: "\<forall>k \<in> set registered_claims. map_of ([[(''user_id'', PInt 7)]] ! 0) k = None"
    by (simp add: registered_claims_def)
  have e: "AList.update ''exp'' (PInt (1000 + 60 * JWT_EXPIRE_MINUTES example_cfg)) ([[(''user_id'', PInt 7)]] ! 0)
             = example_claims"
    by (simp add: example_cfg_def example_claims_def)
  have sup: "alg_supported example_lib (JWT_ALGORITHM example_cfg)"
    by (simp add: example_lib_def example_cfg_def)
  have hs: "b64json example_lib (jose_header (JWT_ALGORITHM example_cfg)) \<noteq> None"
    by (simp add: example_lib_def example_cfg_def)
  have ps: "b64json example_lib (PDict (AList.update ''exp'' (PInt (1000 + 60 * JWT_EXPIRE_MINUTES example_cfg))
              ([[(''user_id'', PInt 7)]] ! 0))) \<noteq> None"
    unfolding e by (simp add: example_lib_def jose_header_def example_claims_def)
  from token_round_trip [OF example_lib_ok d r sup hs ps]
  obtain tok where tok:
    "fst (create_access_token (jose example_lib 1000) example_cfg 1000 [[(''user_id'', PInt 7)]] 0) = Inr tok"
    and T: "\<And>t. (t \<le> 1000 + 60 * JWT_EXPIRE_MINUTES example_cfg \<longrightarrow>
                  (\<exists>p. decode_token (jose example_lib t) example_cfg tok = Some p \<and> p = example_claims)) \<and>
                (1000 + 60 * JWT_EXPIRE_MINUTES example_cfg < t \<longrightarrow>
                  decode_token (jose example_lib t) example_cfg tok = None)"
    unfolding e by blast
  have "tok = example_token" using tok example_issue by simp
  then show ?thesis
    using tok T [of 1000] T [of 2800] T [of 2801] by (simp add: example_cfg_def)
qed

text \<open>
  Claim C10. \<open>create_access_token\<close> leaves the caller's dictionary as it was: the store
  after the call is the store before it followed by one new dictionary, the copy that
  received the expiry, so the dictionary at the caller's reference is unchanged.
\<close>

theorem create_access_token_frame:
  assumes "data < length h"
  shows "snd (create_access_token (jose lib now) cfg t h data) =
           h @ [time_claims (AList.update ''exp'' (PDatetime (t + 60 * JWT_EXPIRE_MINUTES cfg)) (h ! data))] \<and>
         snd (create_access_token (jose lib now) cfg t h data) ! data = h ! data"
  using assms
  by (auto simp: create_access_token_def jose_def jose_encode_def dict_copy_def dict_update_def
      Let_def nth_append split: option.splits)

theorem create_access_token_frame_witness:
  "snd (create_access_token (jose example_lib 1000) example_cfg 1000 [[(''user_id'', PInt 7)]] 0) ! 0
     = [(''user_id'', PInt 7)]"
  using create_access_token_frame [of 0 "[[(''user_id'', PInt 7)]]" example_lib 1000 example_cfg 1000]
  by simp

section \<open>Properties of the access-control gate and of login\<close>

lemma example_decode:
  "decode_token (jose example_lib t) example_cfg example_token =
     (if 2800 < t then None else Some example_claims)"
proof -
  have hs: "b64json example_lib (jose_header ''HS256'') = Some example_header_seg"
    by (simp add: example_lib_def)
  have ps: "b64json example_lib (PDict example_claims) = Some example_claims_seg"
    by (simp add: example_lib_def jose_header_def example_claims_def)
  have sup: "alg_supported example_lib ''HS256''" by (simp add: example_lib_def)
  have sg: "sign example_lib ''HS256'' ''secret'' (example_header_seg @ ''.'' @ example_claims_seg) = example_sig"
    by (simp add: example_lib_def example_sign_def)
  have v: "validate_claims example_lib example_claims t =
      (if 2800 < t then Some (Exn ''ExpiredSignatureError'' ''Signature has expired.'') else None)"
    by (simp add: validate_claims_def registered_claims_def example_claims_def)
  show ?thesis
    using jose_decode_issued [OF example_lib_ok hs ps sup, where now = t and key = "''secret''"]
    unfolding sg v
    by (simp add: decode_token_def jose_def example_cfg_def example_token_def)
qed

lemma dict_get_nonempty: "dict_get payload k = PInt uid \<Longrightarrow> truthy (PDict payload)"
  by (cases payload) (simp_all add: dict_get_def)

lemma get_current_user_invalid:
  "decode_token jwt cfg token = None \<Longrightarrow>
     get_current_user jwt cfg db token = Inl (HTTPException 401 ''Invalid token'')"
  by (simp add: get_current_user_def)

lemma get_current_user_not_found:
  assumes "decode_token jwt cfg token = Some payload" "dict_get payload ''user_id'' = PInt uid"
    "connected db" "find (\<lambda>u. u_id u = uid) (users db) = None"
  shows "get_current_user jwt cfg db token = Inl (HTTPException 401 ''User not found'')"
  using assms dict_get_nonempty [OF assms(2)]
  by (simp add: get_current_user_def user_find_unique_id_def)

lemma get_current_user_found:
  assumes "decode_token jwt cfg token = Some payload" "dict_get payload ''user_id'' = PInt uid"
    "connected db" "find (\<lambda>u. u_id u = uid) (users db) = Some user"
  shows "get_current_user jwt cfg db token = Inr user \<and> u_id user = uid \<and>
         depends jwt cfg db token handler = handler user"
proof -
  have g: "get_current_user jwt cfg db token = Inr user"
    using assms dict_get_nonempty [OF assms(2)]
    by (simp add: get_current_user_def user_find_unique_id_def)
  have "u_id user = uid" using assms(4) by (auto simp: find_Some_iff)
  moreover have "depends jwt cfg db token handler = handler user"
    using g by (simp add: depends_def)
  ultimately show ?thesis using g by simp
qed

text \<open>
  Claim C4. \<open>get_current_user\<close> rejects with status 401 and detail
  \<open>Invalid token\<close> when \<open>decode_token\<close> returns \<open>None\<close>. When it returns a payload
  that carries a user identifier, the user is looked up by that identifier in the
  connected store: with no such user the request is rejected with status 401 and detail
  \<open>User not found\<close>; otherwise the user found is returned, it has the embedded
  identifier, and it is the user every handler behind the dependency runs on.
\<close>

theorem get_current_user_resolution:
  "(decode_token jwt cfg token = None \<longrightarrow>
      get_current_user jwt cfg db token = Inl (HTTPException 401 ''Invalid token'')) \<and>
   (decode_token jwt cfg token = Some payload \<and> dict_get payload ''user_id'' = PInt uid \<and>
    connected db \<longrightarrow>
      (find (\<lambda>u. u_id u = uid) (users db) = None \<longrightarrow>
         get_current_user jwt cfg db token = Inl (HTTPException 401 ''User not found'')) \<and>
      (\<forall>user. find (\<lambda>u. u_id u = uid) (users db) = Some user \<longrightarrow>
         get_current_user jwt cfg db token = Inr user \<and> u_id user = uid \<and>
         depends jwt cfg db token handler = handler user))"
  using get_current_user_invalid [of jwt cfg token db]
    get_current_user_not_found [of jwt cfg token payload uid db]
    get_current_user_found [of jwt cfg token payload uid db _ handler]
  by blast

theorem get_current_user_resolution_witness:
  "get_current_user (jose example_lib 2801) example_cfg example_db example_token =
     Inl (HTTPException 401 ''Invalid token'') \<and>
   get_current_user (jose example_lib 1500) example_cfg (example_db\<lparr>users := [example_other]\<rparr>) example_token =
     Inl (HTTPException 401 ''User not found'') \<and>
   get_current_user (jose example_lib 1500) example_cfg example_db example_token = Inr example_user \<and>
   depends (jose example_lib 1500) example_cfg example_db example_token (get_expenses example_db) = Inr []"
proof -
  have g: "dict_get example_claims ''user_id'' = PInt 7"
    by (simp add: dict_get_def example_claims_def)
  have f1: "find (\<lambda>u. u_id u = 7) (users (example_db\<lparr>users := [example_other]\<rparr>)) = None"
    by (simp add: example_other_def)
  have f2: "find (\<lambda>u. u_id u = 7) (users example_db) = Some example_user"
    by (simp add: example_db_def example_user_def)
  have c: "connected example_db" "connected (example_db\<lparr>users := [example_other]\<rparr>)"
    by (simp_all add: example_db_def)
  have e: "get_expenses example_db example_user = Inr []"
    by (simp add: get_expenses_def expense_find_many_def example_db_def)
  have d1: "decode_token (jose example_lib 2801) example_cfg example_token = None"
    and d2: "decode_token (jose example_lib 1500) example_cfg example_token = Some example_claims"
    by (simp_all add: example_decode)
  note T = get_current_user_resolution [where payload = example_claims and uid = 7
      and handler = "get_expenses example_db" and cfg = example_cfg and token = example_token]
  from T [of "jose example_lib 2801" example_db] d1
  have 1: "get_current_user (jose example_lib 2801) example_cfg example_db example_token =
     Inl (HTTPException 401 ''Invalid token'')" by blast
  from T [of "jose example_lib 1500" "example_db\<lparr>users := [example_other]\<rparr>"] d2 g c(2) f1
  have 2: "get_current_user (jose example_lib 1500) example_cfg (example_db\<lparr>users := [example_other]\<rparr>) example_token =
     Inl (HTTPException 401 ''User not found'')" by blast
  from T [of "jose example_lib 1500" example_db] d2 g c(1) f2
  have 3: "get_current_user (jose example_lib 1500) example_cfg example_db example_token = Inr example_user \<and>
     depends (jose example_lib 1500) example_cfg example_db example_token (get_expenses example_db)
       = get_expenses example_db example_user" by blast
  show ?thesis using 1 2 3 e by simp
qed

lemma login_unknown_user:
  assumes "connected db"
    and "dict_get d ''username'' = PStr un" "un \<noteq> []"
    and "dict_get d ''password'' = PStr pw" "pw \<noteq> []"
    and "find (\<lambda>u. u_username u = un) (users db) = None"
  shows "login checkpw jwt cfg now db (PDict d) = Inl (HTTPException 401 ''Invalid credentials'')"
  using assms by (simp add: login_def user_find_unique_username_def)

lemma login_wrong_password:
  assumes "connected db"
    and "dict_get d ''username'' = PStr un" "un \<noteq> []"
    and "dict_get d ''password'' = PStr pw" "pw \<noteq> []"
    and "find (\<lambda>u. u_username u = un) (users db) = Some user"
    and "checkpw pw (u_password user) = Inr False"
  shows "login checkpw jwt cfg now db (PDict d) = Inl (HTTPException 401 ''Invalid credentials'')"
  using assms by (simp add: login_def user_find_unique_username_def verify_password_def)

text \<open>
  With a password that is a string and a check that returns, a login with an unknown
  username and a login with a known username and a password that does not verify end in
  the same response: status 401 with detail \<open>Invalid credentials\<close>.
\<close>

lemma login_rejection_string_password:
  assumes "connected db"
    and "dict_get d1 ''username'' = PStr un1" "un1 \<noteq> []"
    and "dict_get d1 ''password'' = PStr pw1" "pw1 \<noteq> []"
    and "find (\<lambda>u. u_username u = un1) (users db) = None"
    and "dict_get d2 ''username'' = PStr un2" "un2 \<noteq> []"
    and "dict_get d2 ''password'' = PStr pw2" "pw2 \<noteq> []"
    and "find (\<lambda>u. u_username u = un2) (users db) = Some user"
    and "checkpw pw2 (u_password user) = Inr False"
  shows "login checkpw jwt cfg now db (PDict d1) = Inl (HTTPException 401 ''Invalid credentials'') \<and>
         login checkpw jwt cfg now db (PDict d2) = Inl (HTTPException 401 ''Invalid credentials'') \<and>
         login checkpw jwt cfg now db (PDict d1) = login checkpw jwt cfg now db (PDict d2)"
  using login_unknown_user [OF assms(1-6), of checkpw jwt cfg now]
    login_wrong_password [where checkpw = checkpw, OF assms(1) assms(7-12), of jwt cfg now]
  by simp

lemma example_login_rejections:
  "login example_checkpw (jose example_lib 1000) example_cfg 1000 example_db
      (PDict [(''username'', PStr ''zoe''), (''password'', PStr ''pw123'')]) =
   login example_checkpw (jose example_lib 1000) example_cfg 1000 example_db
      (PDict [(''username'', PStr ''mia''), (''password'', PStr ''letmein'')])"
proof -
  have c: "connected example_db" by (simp add: example_db_def)
  have u1: "dict_get [(''username'', PStr ''zoe''), (''password'', PStr ''pw123'')] ''username'' = PStr ''zoe''"
    and p1: "dict_get [(''username'', PStr ''zoe''), (''password'', PStr ''pw123'')] ''password'' = PStr ''pw123''"
    and u2: "dict_get [(''username'', PStr ''mia''), (''password'', PStr ''letmein'')] ''username'' = PStr ''mia''"
    and p2: "dict_get [(''username'', PStr ''mia''), (''password'', PStr ''letmein'')] ''password'' = PStr ''letmein''"
    by (simp_all add: dict_get_def)
  have f1: "find (\<lambda>u. u_username u = ''zoe'') (users example_db) = None"
    by (simp add: example_db_def example_user_def example_other_def)
  have f2: "find (\<lambda>u. u_username u = ''mia'') (users example_db) = Some example_user"
    by (simp add: example_db_def example_user_def)
  have k: "example_checkpw ''letmein'' (u_password example_user) = Inr False"
    by (simp add: example_checkpw_def example_user_def)
  have n: "''zoe'' \<noteq> []" "''pw123'' \<noteq> []" "''mia'' \<noteq> []" "''letmein'' \<noteq> []" by simp_all
  from login_rejection_string_password [where checkpw = example_checkpw, OF c u1 n(1) p1 n(2) f1 u2 n(3) p2 n(4) f2 k]
  show ?thesis by simp
qed

text \<open>
  The password is checked only when the user exists. When the check raises, because the
  password is not a string or because \<open>checkpw\<close> raises, the request of a known user
  ends in an unhandled exception, while the same request for an unknown user ends in the
  401 rejection.
\<close>

lemma login_unknown_user_any_password:
  assumes "connected db"
    and "dict_get d ''username'' = PStr un" "un \<noteq> []"
    and "truthy (dict_get d ''password'')"
    and "find (\<lambda>u. u_username u = un) (users db) = None"
  shows "login checkpw jwt cfg now db (PDict d) = Inl (HTTPException 401 ''Invalid credentials'')"
  using assms by (simp add: login_def user_find_unique_username_def)

lemma login_known_user_not_a_string:
  assumes "connected db"
    and "dict_get d ''username'' = PStr un" "un \<noteq> []"
    and "truthy (dict_get d ''password'')" "\<forall>s. dict_get d ''password'' \<noteq> PStr s"
    and "find (\<lambda>u. u_username u = un) (users db) = Some user"
  shows "login checkpw jwt cfg now db (PDict d) = Inl (no_attribute ''encode'')"
  using assms
  by (cases "dict_get d ''password''")
     (simp_all add: login_def user_find_unique_username_def)

lemma login_verify_raises:
  assumes "connected db"
    and "dict_get d ''username'' = PStr un" "un \<noteq> []"
    and "dict_get d ''password'' = PStr pw" "pw \<noteq> []"
    and "find (\<lambda>u. u_username u = un) (users db) = Some user"
    and "checkpw pw (u_password user) = Inl e"
  shows "login checkpw jwt cfg now db (PDict d) = Inl (Unhandled e)"
  using assms by (simp add: login_def user_find_unique_username_def verify_password_def)

text \<open>
  Claim C9, at the input where the program departs from it. Two logins with the
  password \<open>123\<close>, a JSON number: for the unknown username \<open>zoe\<close> the response is the
  401 rejection \<open>Invalid credentials\<close>; for the registered username \<open>mia\<close>,
  \<open>plain.encode\<close> raises \<open>AttributeError\<close> and the request ends in an unhandled
  exception. The two failure causes do not give the same response.
\<close>

theorem login_password_oracle:
  "login checkpw jwt cfg now example_db
      (PDict [(''username'', PStr ''zoe''), (''password'', PInt 123)]) =
     Inl (HTTPException 401 ''Invalid credentials'') \<and>
   login checkpw jwt cfg now example_db
      (PDict [(''username'', PStr ''mia''), (''password'', PInt 123)]) =
     Inl (Unhandled (Exn ''AttributeError'' ''object has no attribute encode'')) \<and>
   login checkpw jwt cfg now example_db
      (PDict [(''username'', PStr ''zoe''), (''password'', PInt 123)]) \<noteq>
   login checkpw jwt cfg now example_db
      (PDict [(''username'', PStr ''mia''), (''password'', PInt 123)])"
  by (simp add: login_def user_find_unique_username_def dict_get_def example_db_def
      example_user_def example_other_def no_attribute_def)

theorem login_password_oracle_witness:
  "login example_checkpw (jose example_lib 1000) example_cfg 1000 example_db
      (PDict [(''username'', PStr ''zoe''), (''password'', PInt 123)]) =
     Inl (HTTPException 401 ''Invalid credentials'') \<and>
   login example_checkpw (jose example_lib 1000) example_cfg 1000 example_db
      (PDict [(''username'', PStr ''mia''), (''password'', PInt 123)]) =
     Inl (Unhandled (Exn ''AttributeError'' ''object has no attribute encode'')) \<and>
   login example_checkpw (jose example_lib 1000) example_cfg 1000 example_db
      (PDict [(''username'', PStr ''zoe''), (''password'', PInt 123)]) \<noteq>
   login example_checkpw (jose example_lib 1000) example_cfg 1000 example_db
      (PDict [(''username'', PStr ''mia''), (''password'', PInt 123)])"
  by (rule login_password_oracle [of example_checkpw "jose example_lib 1000" example_cfg 1000])

section \<open>Properties of the user data repository\<close>

subsection \<open>What a list operation returns and what a creator writes\<close>

lemma get_expenses_rows:
  "get_expenses db u = Inr rows \<Longrightarrow>
     connected db \<and> rows = filter (\<lambda>e. e_userId e = u_id u) (expenses db)"
  by (auto simp: get_expenses_def expense_find_many_def split: if_splits)

lemma get_savings_jars_rows:
  "get_savings_jars db u = Inr rows \<Longrightarrow>
     connected db \<and> rows = filter (\<lambda>j. j_userId j = u_id u) (savingsjars db)"
  by (auto simp: get_savings_jars_def savingsjar_find_many_def split: if_splits)

lemma get_reminders_rows:
  "get_reminders db u = Inr rows \<Longrightarrow>
     connected db \<and> rows = filter (\<lambda>r. r_userId r = u_id u) (reminders db)"
  by (auto simp: get_reminders_def reminder_find_many_def split: if_splits)

lemma get_expenses_connected:
  "connected db \<Longrightarrow> get_expenses db u = Inr (filter (\<lambda>e. e_userId e = u_id u) (expenses db))"
  by (simp add: get_expenses_def expense_find_many_def)

lemma depends_Inr:
  "depends jwt cfg db token handler = Inr x \<Longrightarrow>
     \<exists>u. get_current_user jwt cfg db token = Inr u \<and> handler u = Inr x"
  by (auto simp: depends_def split: sum.splits)

lemma expense_create_row:
  "expense_create sch db data = Inr (row, db') \<Longrightarrow>
     connected db \<and> db' = db\<lparr>expenses := expenses db @ [row]\<rparr> \<and>
     dict_get data ''userId'' = PInt (e_userId row)"
  by (auto simp: expense_create_def Let_def split: if_splits option.splits pyval.splits)

lemma savingsjar_create_row:
  "savingsjar_create sch db data = Inr (row, db') \<Longrightarrow>
     connected db \<and> db' = db\<lparr>savingsjars := savingsjars db @ [row]\<rparr> \<and>
     dict_get data ''userId'' = PInt (j_userId row)"
  by (auto simp: savingsjar_create_def Let_def split: if_splits option.splits pyval.splits)

lemma reminder_create_row:
  "reminder_create sch db data = Inr (row, db') \<Longrightarrow>
     connected db \<and> db' = db\<lparr>reminders := reminders db @ [row]\<rparr> \<and>
     dict_get data ''userId'' = PInt (r_userId row)"
  by (auto simp: reminder_create_def Let_def split: if_splits option.splits pyval.splits)

lemma add_expense_row:
  assumes "add_expense sch db body u = Inr (resp, db')"
  shows "\<exists>row. db' = db\<lparr>expenses := expenses db @ [row]\<rparr> \<and> e_userId row = u_id u \<and> connected db"
proof -
  from assms obtain d where b: "body = PDict d"
    by (cases body) (simp_all add: add_expense_def)
  let ?data = "[(''userId'', PInt (u_id u)), (''category'', dict_get d ''category''),
      (''amount'', dict_get d ''amount''), (''note'', dict_get d ''note''),
      (''recurring'', dict_get d ''recurring'')]"
  from assms b obtain row where c: "expense_create sch db ?data = Inr (row, db')"
    by (auto simp: add_expense_def Let_def split: if_splits sum.splits)
  from expense_create_row [OF c] show ?thesis
    by (auto simp: dict_get_def)
qed

lemma add_savings_jar_row:
  assumes "add_savings_jar sch db body u = Inr (resp, db')"
  shows "\<exists>row. db' = db\<lparr>savingsjars := savingsjars db @ [row]\<rparr> \<and> j_userId row = u_id u \<and> connected db"
proof -
  from assms obtain d where b: "body = PDict d"
    by (cases body) (simp_all add: add_savings_jar_def)
  let ?data = "[(''userId'', PInt (u_id u)), (''name'', dict_get d ''name''),
      (''goal'', dict_get d ''goal''), (''description'', dict_get d ''description''),
      (''progress'', dict_get d ''progress'')]"
  from assms b obtain row where c: "savingsjar_create sch db ?data = Inr (row, db')"
    by (auto simp: add_savings_jar_def Let_def split: if_splits sum.splits)
  from savingsjar_create_row [OF c] show ?thesis
    by (auto simp: dict_get_def)
qed

lemma add_reminder_row:
  assumes "add_reminder dt sch db body u = Inr (resp, db')"
  shows "\<exists>row. db' = db\<lparr>reminders := reminders db @ [row]\<rparr> \<and> r_userId row = u_id u \<and> connected db"
proof -
  from assms obtain d where b: "body = PDict d"
    by (cases body) (simp_all add: add_reminder_def)
  from assms b obtain s where s: "dict_get d ''due_date'' = PStr s"
    by (cases "dict_get d ''due_date''") (simp_all add: add_reminder_def Let_def)
  from assms b s obtain due where due: "fromisoformat dt (s @ ''T00:00:00'') = Some due"
    by (cases "fromisoformat dt (s @ ''T00:00:00'')") (simp_all add: add_reminder_def Let_def)
  let ?data = "[(''userId'', PInt (u_id u)), (''name'', dict_get d ''name''),
      (''amount'', dict_get d ''amount''), (''dueDate'', PDatetime due)]"
  from assms b s due obtain row where c: "reminder_create sch db ?data = Inr (row, db')"
    by (auto simp: add_reminder_def Let_def split: if_splits sum.splits)
  from reminder_create_row [OF c] show ?thesis
    by (auto simp: dict_get_def)
qed

lemma add_expenses_rows:
  "add_expenses sch db reqs = Inr db' \<Longrightarrow>
     \<exists>rows. expenses db' = expenses db @ rows \<and>
            map e_userId rows = map (\<lambda>r. u_id (fst r)) reqs \<and>
            connected db' = connected db"
proof (induction reqs arbitrary: db)
  case Nil
  then show ?case by simp
next
  case (Cons r reqs)
  obtain u body where r: "r = (u, body)" by (cases r)
  from Cons.prems r obtain resp db1 where s: "add_expense sch db body u = Inr (resp, db1)"
    and rest: "add_expenses sch db1 reqs = Inr db'"
    by (auto split: sum.splits)
  from add_expense_row [OF s] obtain row where
    row: "db1 = db\<lparr>expenses := expenses db @ [row]\<rparr>" "e_userId row = u_id u"
    by blast
  from Cons.IH [OF rest] obtain rows where
    rows: "expenses db' = expenses db1 @ rows" "map e_userId rows = map (\<lambda>r. u_id (fst r)) reqs"
      "connected db' = connected db1"
    by blast
  show ?case
    using row rows r
    by (intro exI [of _ "row # rows"]) simp
qed

lemma count_owned:
  "map f xs = map g ys \<Longrightarrow>
     length (filter (\<lambda>x. f x = a) xs) = length (filter (\<lambda>y. g y = a) ys)"
proof (induction xs arbitrary: ys)
  case Nil
  then show ?case by simp
next
  case (Cons x xs)
  then obtain y ys' where ys: "ys = y # ys'" "f x = g y" "map f xs = map g ys'"
    by (cases ys) auto
  with Cons.IH [of ys'] show ?case by simp
qed

lemma add_expenses_scenario:
  assumes ab: "u_id A \<noteq> u_id B"
    and who: "\<forall>r \<in> set reqs. fst r = A \<or> fst r = B"
    and con: "connected db"
    and run: "add_expenses sch db reqs = Inr db'"
  shows "\<exists>new. get_expenses db' A =
                  Inr (filter (\<lambda>e. e_userId e = u_id A) (expenses db) @ new) \<and>
               length new = length (filter (\<lambda>r. fst r = A) reqs) \<and>
               (\<forall>e \<in> set new. e_userId e = u_id A \<and> e_userId e \<noteq> u_id B)"
proof -
  from add_expenses_rows [OF run] obtain rows where
    rows: "expenses db' = expenses db @ rows" "map e_userId rows = map (\<lambda>r. u_id (fst r)) reqs"
      "connected db' = connected db"
    by blast
  let ?new = "filter (\<lambda>e. e_userId e = u_id A) rows"
  have g: "get_expenses db' A = Inr (filter (\<lambda>e. e_userId e = u_id A) (expenses db) @ ?new)"
    using get_expenses_connected [of db' A] rows(1,3) con by simp
  have "filter (\<lambda>r. u_id (fst r) = u_id A) reqs = filter (\<lambda>r. fst r = A) reqs"
    using who ab by (intro filter_cong) auto
  then have len: "length ?new = length (filter (\<lambda>r. fst r = A) reqs)"
    using count_owned [OF rows(2), of "u_id A"] by simp
  have own: "\<forall>e \<in> set ?new. e_userId e = u_id A \<and> e_userId e \<noteq> u_id B"
    using ab by simp
  show ?thesis using g len own by blast
qed

lemma example_run:
  "add_expenses example_schema example_db example_requests = Inr (example_db\<lparr>expenses := example_rows\<rparr>)"
  by (simp add: example_requests_def example_rows_def add_expense_def expense_create_def
      example_schema_def example_db_def example_user_def example_other_def dict_get_def Let_def)

text \<open>
  Claim C1. A list route that answers returns exactly the rows of its table whose owner
  is the user \<open>get_current_user\<close> resolved from the request's token. A creator that
  answers has appended one row to its table and changed nothing else, and the owner of
  that row is the resolved user, whatever the body says. Hence, for users \<open>A\<close> and \<open>B\<close>
  with different identifiers and a run of \<open>add_expense\<close> requests by \<open>A\<close> and \<open>B\<close> that
  all answer, \<open>get_expenses\<close> for \<open>A\<close> afterwards returns the rows \<open>A\<close> had before
  followed by as many new rows as \<open>A\<close> made requests, each owned by \<open>A\<close> and none by
  \<open>B\<close>.
\<close>

theorem per_user_isolation:
  "(depends jwt cfg db token (get_expenses db) = Inr es \<longrightarrow>
      (\<exists>u. get_current_user jwt cfg db token = Inr u \<and>
           es = filter (\<lambda>e. e_userId e = u_id u) (expenses db))) \<and>
   (depends jwt cfg db token (get_savings_jars db) = Inr js \<longrightarrow>
      (\<exists>u. get_current_user jwt cfg db token = Inr u \<and>
           js = filter (\<lambda>j. j_userId j = u_id u) (savingsjars db))) \<and>
   (depends jwt cfg db token (get_reminders db) = Inr rs \<longrightarrow>
      (\<exists>u. get_current_user jwt cfg db token = Inr u \<and>
           rs = filter (\<lambda>r. r_userId r = u_id u) (reminders db))) \<and>
   (add_expense sch db body u = Inr (resp, db1) \<longrightarrow>
      (\<exists>row. db1 = db\<lparr>expenses := expenses db @ [row]\<rparr> \<and> e_userId row = u_id u)) \<and>
   (add_savings_jar sch db body u = Inr (resp, db2) \<longrightarrow>
      (\<exists>row. db2 = db\<lparr>savingsjars := savingsjars db @ [row]\<rparr> \<and> j_userId row = u_id u)) \<and>
   (add_reminder dt sch db body u = Inr (resp, db3) \<longrightarrow>
      (\<exists>row. db3 = db\<lparr>reminders := reminders db @ [row]\<rparr> \<and> r_userId row = u_id u)) \<and>
   (u_id A \<noteq> u_id B \<and> (\<forall>r \<in> set reqs. fst r = A \<or> fst r = B) \<and> connected db \<and>
    add_expenses sch db reqs = Inr db' \<longrightarrow>
      (\<exists>new. get_expenses db' A =
                 Inr (filter (\<lambda>e. e_userId e = u_id A) (expenses db) @ new) \<and>
              length new = length (filter (\<lambda>r. fst r = A) reqs) \<and>
              (\<forall>e \<in> set new. e_userId e = u_id A \<and> e_userId e \<noteq> u_id B)))"
proof -
  have 1: "depends jwt cfg db token (get_expenses db) = Inr es \<longrightarrow>
      (\<exists>u. get_current_user jwt cfg db token = Inr u \<and>
           es = filter (\<lambda>e. e_userId e = u_id u) (expenses db))"
    using depends_Inr [of jwt cfg db token "get_expenses db" es] get_expenses_rows by blast
  have 2: "depends jwt cfg db token (get_savings_jars db) = Inr js \<longrightarrow>
      (\<exists>u. get_current_user jwt cfg db token = Inr u \<and>
           js = filter (\<lambda>j. j_userId j = u_id u) (savingsjars db))"
    using depends_Inr [of jwt cfg db token "get_savings_jars db" js] get_savings_jars_rows by blast
  have 3: "depends jwt cfg db token (get_reminders db) = Inr rs \<longrightarrow>
      (\<exists>u. get_current_user jwt cfg db token = Inr u \<and>
           rs = filter (\<lambda>r. r_userId r = u_id u) (reminders db))"
    using depends_Inr [of jwt cfg db token "get_reminders db" rs] get_reminders_rows by blast
  have 4: "add_expense sch db body u = Inr (resp, db1) \<longrightarrow>
      (\<exists>row. db1 = db\<lparr>expenses := expenses db @ [row]\<rparr> \<and> e_userId row = u_id u)"
    using add_expense_row [of sch db body u resp db1] by blast
  have 5: "add_savings_jar sch db body u = Inr (resp, db2) \<longrightarrow>
      (\<exists>row. db2 = db\<lparr>savingsjars := savingsjars db @ [row]\<rparr> \<and> j_userId row = u_id u)"
    using add_savings_jar_row [of sch db body u resp db2] by blast
  have 6: "add_reminder dt sch db body u = Inr (resp, db3) \<longrightarrow>
      (\<exists>row. db3 = db\<lparr>reminders := reminders db @ [row]\<rparr> \<and> r_userId row = u_id u)"
    using add_reminder_row [of dt sch db body u resp db3] by blast
  have 7: "u_id A \<noteq> u_id B \<and> (\<forall>r \<in> set reqs. fst r = A \<or> fst r = B) \<and> connected db \<and>
    add_expenses sch db reqs = Inr db' \<longrightarrow>
      (\<exists>new. get_expenses db' A =
                 Inr (filter (\<lambda>e. e_userId e = u_id A) (expenses db) @ new) \<and>
              length new = length (filter (\<lambda>r. fst r = A) reqs) \<and>
              (\<forall>e \<in> set new. e_userId e = u_id A \<and> e_userId e \<noteq> u_id B))"
    using add_expenses_scenario [of A B reqs db sch db'] by blast
  show ?thesis
    by (intro conjI) (rule 1 2 3 4 5 6 7)+
qed

theorem per_user_isolation_witness:
  "\<exists>rows. get_expenses (example_db\<lparr>expenses := example_rows\<rparr>) example_user = Inr rows \<and>
          length rows = 2 \<and> (\<forall>e \<in> set rows. e_userId e = 7 \<and> e_userId e \<noteq> 8)"
proof -
  have ab: "u_id example_user \<noteq> u_id example_other"
    by (simp add: example_user_def example_other_def)
  have who: "\<forall>r \<in> set example_requests. fst r = example_user \<or> fst r = example_other"
    by (simp add: example_requests_def)
  have con: "connected example_db" by (simp add: example_db_def)
  have n: "length (filter (\<lambda>r. fst r = example_user) example_requests) = 2"
    by (simp add: example_requests_def example_user_def example_other_def)
  have old: "expenses example_db = []" by (simp add: example_db_def)
  have ids: "u_id example_user = 7" "u_id example_other = 8"
    by (simp_all add: example_user_def example_other_def)
  from per_user_isolation [where A = example_user and B = example_other and reqs = example_requests
      and db = example_db and sch = example_schema and db' = "example_db\<lparr>expenses := example_rows\<rparr>"]
    ab who con example_run
  obtain new where new:
    "get_expenses (example_db\<lparr>expenses := example_rows\<rparr>) example_user =
       Inr (filter (\<lambda>e. e_userId e = u_id example_user) (expenses example_db) @ new)"
    "length new = length (filter (\<lambda>r. fst r = example_user) example_requests)"
    "\<forall>e \<in> set new. e_userId e = u_id example_user \<and> e_userId e \<noteq> u_id example_other"
    by blast
  show ?thesis
    using new unfolding old n ids by (intro exI [of _ new]) simp
qed

subsection \<open>What the creators check\<close>

text \<open>
  \<open>add_reminder\<close> answers a due date that is a string and does not parse with status
  400; a due date that is not a string, an absent one among them, ends in a
  \<open>TypeError\<close> no handler catches. The creators do not look at the other fields: what
  the store's schema accepts is persisted, what it rejects comes back as status 500 with
  the store's text.
\<close>

lemma add_reminder_malformed:
  assumes "dict_get d ''due_date'' = PStr s" "fromisoformat dt (s @ ''T00:00:00'') = None"
  shows "add_reminder dt sch db (PDict d) u = Inl (HTTPException 400 ''Invalid date format'')"
  using assms by (simp add: add_reminder_def)

lemma add_reminder_not_a_string:
  assumes "\<forall>s. dict_get d ''due_date'' \<noteq> PStr s"
  shows "add_reminder dt sch db (PDict d) u =
           Inl (Unhandled (Exn ''TypeError'' ''unsupported operand type(s) for +''))"
  using assms by (cases "dict_get d ''due_date''") (simp_all add: add_reminder_def)

lemma add_expense_accepted:
  assumes "add_expense sch db (PDict d) u = Inr (resp, db')"
  shows "sch ''Expense'' [(''userId'', PInt (u_id u)), (''category'', dict_get d ''category''),
            (''amount'', dict_get d ''amount''), (''note'', dict_get d ''note''),
            (''recurring'', dict_get d ''recurring'')] = None"
  using assms
  by (auto simp: add_expense_def expense_create_def Let_def split: if_splits option.splits sum.splits)

lemma add_expense_rejected:
  assumes "connected db" "u_id u \<noteq> 0"
    and "sch ''Expense'' [(''userId'', PInt (u_id u)), (''category'', dict_get d ''category''),
            (''amount'', dict_get d ''amount''), (''note'', dict_get d ''note''),
            (''recurring'', dict_get d ''recurring'')] = Some msg"
  shows "add_expense sch db (PDict d) u = Inl (HTTPException 500 msg)"
  using assms by (simp add: add_expense_def expense_create_def)

text \<open>The same on the concrete store.\<close>

lemma example_add_reminder:
  "add_reminder example_datetime example_schema example_db
      (PDict [(''name'', PStr ''Rent''), (''amount'', PInt 1200), (''due_date'', PStr ''2025-01-31'')])
      example_user =
     Inr ([(''message'', PStr ''Reminder added successfully''), (''reminder_id'', PInt 1),
           (''due_date'', PStr ''2025-01-31T00:00:00'')],
          example_db\<lparr>reminders :=
            [\<lparr> r_id = 1, r_userId = 7, r_name = PStr ''Rent'', r_amount = PInt 1200,
               r_dueDate = PDatetime 1738281600 \<rparr>]\<rparr>)"
  and example_add_reminder_malformed:
  "add_reminder example_datetime example_schema example_db
      (PDict [(''name'', PStr ''Rent''), (''amount'', PInt 1200), (''due_date'', PStr ''31/01/2025'')])
      example_user =
     Inl (HTTPException 400 ''Invalid date format'')"
  and example_add_expense_missing:
  "add_expense example_schema example_db (PDict [(''note'', PStr ''lunch'')]) example_user =
     Inl (HTTPException 500 ''Missing required value for field category'')"
  and example_queries_after_shutdown:
  "get_expenses (shutdown example_db) example_user =
     Inl (HTTPException 500 ''Client is not connected to the query engine'')"
  by (simp_all add: add_reminder_def reminder_create_def add_expense_def expense_create_def
      example_datetime_def example_schema_def example_db_def example_user_def dict_get_def Let_def
      get_expenses_def expense_find_many_def shutdown_def not_connected_def)

text \<open>
  Claim C6, at the input where the program departs from it. A reminder request with no
  \<open>due_date\<close> is not answered with the 400 rejection \<open>Invalid date format\<close>:
  \<open>None + "T00:00:00"\<close> raises \<open>TypeError\<close>, which \<open>except ValueError\<close> does not
  catch, and the request ends in an unhandled exception.
\<close>

theorem add_reminder_absent_date:
  "add_reminder dt sch db (PDict [(''name'', PStr ''Rent''), (''amount'', PInt 1200)]) u =
     Inl (Unhandled (Exn ''TypeError'' ''unsupported operand type(s) for +'')) \<and>
   add_reminder dt sch db (PDict [(''name'', PStr ''Rent''), (''amount'', PInt 1200)]) u \<noteq>
     Inl (HTTPException 400 ''Invalid date format'')"
  by (simp add: add_reminder_def dict_get_def)

section \<open>Properties of the assistant\<close>

lemma fetch_Inl_iff:
  "(\<exists>e. fetch get url hdr = Inl e) \<longleftrightarrow>
     (case get url hdr of
        Inl e \<Rightarrow> True
      | Inr r \<Rightarrow> 400 \<le> status r \<and> status r < 600 \<or> json_body r = None)"
  by (auto simp: fetch_def split: sum.splits option.splits)

lemma get_user_data_None:
  assumes "(\<exists>e. fetch get (BASE_URL @ ''/get_expenses'') [(''Authorization'', ''Bearer '' @ tok)] = Inl e) \<or>
           (\<exists>e. fetch get (BASE_URL @ ''/get_savings_jars'') [(''Authorization'', ''Bearer '' @ tok)] = Inl e) \<or>
           (\<exists>e. fetch get (BASE_URL @ ''/get_reminders'') [(''Authorization'', ''Bearer '' @ tok)] = Inl e)"
  shows "get_user_data get tok = None"
  using assms unfolding get_user_data_def Let_def
  by (auto split: sum.splits)

lemma get_user_data_Some:
  assumes "fetch get (BASE_URL @ ''/get_expenses'') [(''Authorization'', ''Bearer '' @ tok)] = Inr es"
    and "fetch get (BASE_URL @ ''/get_savings_jars'') [(''Authorization'', ''Bearer '' @ tok)] = Inr js"
    and "fetch get (BASE_URL @ ''/get_reminders'') [(''Authorization'', ''Bearer '' @ tok)] = Inr rs"
  shows "get_user_data get tok = Some [(''expenses'', es), (''savings_jars'', js), (''reminders'', rs)]"
  unfolding get_user_data_def Let_def assms by simp

lemma get_user_data_keys:
  assumes "get_user_data get tok = Some ud"
  shows "\<exists>es js rs. ud = [(''expenses'', es), (''savings_jars'', js), (''reminders'', rs)]"
  using assms unfolding get_user_data_def Let_def
  by (auto split: sum.splits)

lemma generate_no_data:
  "get_user_data get tok = None \<Longrightarrow>
   generate_ai_response fmt (Some k) create get q tok = Inr (PStr ''Sorry, I couldn't retrieve your data.'')"
  unfolding generate_ai_response_def by simp

lemma generate_with_data:
  assumes "get_user_data get tok = Some ud" "ud \<noteq> []"
  shows "generate_ai_response fmt (Some k) create get q tok =
     (case create (chat_request_of (build_context fmt ud @ ''User Query: '' @ q)) of
        Inl e \<Rightarrow> Inr (PStr (''An error occurred: '' @ exn_text e))
      | Inr [] \<Rightarrow> Inr (PStr (''An error occurred: '' @ ''list index out of range''))
      | Inr (content # choices) \<Rightarrow> Inr content)"
  unfolding generate_ai_response_def Let_def using assms by simp

lemma generate_returns:
  "\<exists>v. generate_ai_response fmt (Some k) create get q tok = Inr v"
proof (cases "get_user_data get tok")
  case None
  then show ?thesis using generate_no_data by blast
next
  case (Some ud)
  show ?thesis
  proof (cases "ud = []")
    case True
    then show ?thesis using Some unfolding generate_ai_response_def by simp
  next
    case False
    show ?thesis
      unfolding generate_with_data [OF Some False]
      by (cases "create (chat_request_of (build_context fmt ud @ ''User Query: '' @ q))")
         (auto split: list.splits)
  qed
qed

lemma example_reminders_down:
  "fetch example_requests_reminders_down (BASE_URL @ ''/get_reminders'') hdr
     = Inl (Exn ''HTTPError'' ''Error for url'')"
  by (simp add: fetch_def example_requests_reminders_down_def)

lemma example_fetch_ok:
  "fetch example_requests_ok url hdr = Inr (PList [])"
  by (simp add: fetch_def example_requests_ok_def)

lemma example_user_data:
  "get_user_data example_requests_ok tok =
     Some [(''expenses'', PList []), (''savings_jars'', PList []), (''reminders'', PList [])]"
  by (rule get_user_data_Some) (rule example_fetch_ok)+

lemma py_str_empty_list: "py_str fmt (PList []) = ''[]''"
  by (simp add: py_str_def)

lemma build_context_eq:
  "build_context fmt [(''expenses'', es), (''savings_jars'', js), (''reminders'', rs)] =
     ''User Information: \<newline>'' @
     ''Expenses: '' @ py_str fmt es @ ''\<newline>'' @
     ''Savings Jars: '' @ py_str fmt js @ ''\<newline>'' @
     ''Reminders: '' @ py_str fmt rs @ ''\<newline>'' @
     ''Please use this information to respond to the user's query.\<newline>''"
  unfolding build_context_def by (simp add: dict_get_def)

text \<open>
  Claim C2. When any one of the three fetches fails (the request raises, the status is
  from 400 to 599, or the body is not JSON), \<open>get_user_data\<close> returns \<open>None\<close>, no
  context is built, and with the API key configured the assistant returns the fallback
  string, whatever the completion service would answer, and does not raise.
\<close>

theorem context_all_or_nothing:
  assumes "(\<exists>e. fetch get (BASE_URL @ ''/get_expenses'') [(''Authorization'', ''Bearer '' @ tok)] = Inl e) \<or>
           (\<exists>e. fetch get (BASE_URL @ ''/get_savings_jars'') [(''Authorization'', ''Bearer '' @ tok)] = Inl e) \<or>
           (\<exists>e. fetch get (BASE_URL @ ''/get_reminders'') [(''Authorization'', ''Bearer '' @ tok)] = Inl e)"
  shows "get_user_data get tok = None \<and>
         generate_ai_response fmt (Some k) create get q tok =
           Inr (PStr ''Sorry, I couldn't retrieve your data.'') \<and>
         get_response fmt (Some k) create get q tok =
           Inr (PStr ''Sorry, I couldn't retrieve your data.'')"
  using get_user_data_None [OF assms] generate_no_data [of get tok fmt k create q]
  by (simp add: get_response_def)

theorem context_all_or_nothing_witness:
  "get_user_data example_requests_reminders_down example_token = None \<and>
   generate_ai_response example_fmt (Some ''sk-test'') example_openai_echo
       example_requests_reminders_down ''How much did I spend?'' example_token =
     Inr (PStr ''Sorry, I couldn't retrieve your data.'')"
  using context_all_or_nothing [of example_requests_reminders_down example_token
      example_fmt "''sk-test''" example_openai_echo "''How much did I spend?''"]
    example_reminders_down
  by blast

text \<open>
  Claim C7, as the program has it. When the call to the completion service raises, the
  assistant returns \<open>An error occurred: \<close> followed by the text of the exception: the
  internal text is echoed to the caller. The counterexample is the unreachable service,
  whose \<open>Connection error.\<close> is part of the answer.
\<close>

theorem llm_error_text_counterexample:
  "generate_ai_response example_fmt (Some ''sk-test'') example_openai_down example_requests_ok
       ''How much did I spend?'' example_token =
     Inr (PStr (''An error occurred: '' @ exn_text example_error)) \<and>
   exn_text example_error = ''Connection error.''"
  using generate_with_data [OF example_user_data, of example_fmt "''sk-test''" example_openai_down
      "''How much did I spend?''" example_token]
  by (simp add: example_openai_down_def example_error_def)

text \<open>
  Claim C7, amended. When the three fetches succeed and the call to the completion
  service raises \<open>e\<close>, the assistant returns the string \<open>An error occurred: \<close>
  followed by the text of \<open>e\<close>; and with the API key configured the assistant returns
  a value on every run: it never raises.
\<close>

theorem llm_failure_reported:
  assumes "fetch get (BASE_URL @ ''/get_expenses'') [(''Authorization'', ''Bearer '' @ tok)] = Inr es"
    and "fetch get (BASE_URL @ ''/get_savings_jars'') [(''Authorization'', ''Bearer '' @ tok)] = Inr js"
    and "fetch get (BASE_URL @ ''/get_reminders'') [(''Authorization'', ''Bearer '' @ tok)] = Inr rs"
    and "create (chat_request_of
           (build_context fmt [(''expenses'', es), (''savings_jars'', js), (''reminders'', rs)]
              @ ''User Query: '' @ q)) = Inl e"
  shows "generate_ai_response fmt (Some k) create get q tok =
           Inr (PStr (''An error occurred: '' @ exn_text e)) \<and>
         (\<exists>v. generate_ai_response fmt (Some k) create' get' q' tok' = Inr v)"
proof -
  have "generate_ai_response fmt (Some k) create get q tok =
           Inr (PStr (''An error occurred: '' @ exn_text e))"
    unfolding generate_with_data [OF get_user_data_Some [OF assms(1-3)], of fmt k create q, simplified]
    using assms(4) by simp
  then show ?thesis using generate_returns by blast
qed

theorem llm_failure_reported_witness:
  "generate_ai_response example_fmt (Some ''sk-test'') example_openai_down example_requests_ok
       ''How much did I spend?'' example_token =
     Inr (PStr ''An error occurred: Connection error.'')"
  using llm_failure_reported [of example_requests_ok example_token "PList []" "PList []" "PList []"
      example_openai_down example_fmt "''How much did I spend?''" example_error "''sk-test''"]
  by (simp add: example_fetch_ok example_openai_down_def example_error_def)

text \<open>
  Claim C8. When the three fetches succeed the context is one text: the headings
  \<open>Expenses:\<close>, \<open>Savings Jars:\<close> and \<open>Reminders:\<close>, each followed by the text of
  what was fetched, then the instruction line. With three empty lists the block is
  still built, with the three headings and \<open>[]\<close> under each. The request submitted to
  the completion service carries the system message and one user message: the context
  followed by \<open>User Query: \<close> and the user's query as it was typed.
\<close>

theorem context_shape:
  assumes "fetch get (BASE_URL @ ''/get_expenses'') [(''Authorization'', ''Bearer '' @ tok)] = Inr es"
    and "fetch get (BASE_URL @ ''/get_savings_jars'') [(''Authorization'', ''Bearer '' @ tok)] = Inr js"
    and "fetch get (BASE_URL @ ''/get_reminders'') [(''Authorization'', ''Bearer '' @ tok)] = Inr rs"
  shows "\<exists>context.
      map_option (build_context fmt) (get_user_data get tok) = Some context \<and>
      context =
        ''User Information: \<newline>'' @
        ''Expenses: '' @ py_str fmt es @ ''\<newline>'' @
        ''Savings Jars: '' @ py_str fmt js @ ''\<newline>'' @
        ''Reminders: '' @ py_str fmt rs @ ''\<newline>'' @
        ''Please use this information to respond to the user's query.\<newline>'' \<and>
      (es = PList [] \<and> js = PList [] \<and> rs = PList [] \<longrightarrow>
        context =
          ''User Information: \<newline>Expenses: []\<newline>Savings Jars: []\<newline>Reminders: []\<newline>Please use this information to respond to the user's query.\<newline>'') \<and>
      generate_ai_response fmt (Some k) create get q tok =
        (case create \<lparr> model = ''gpt-4o'',
                       messages = [(''system'', ''You are a helpful personal finance assistant.''),
                                   (''user'', context @ ''User Query: '' @ q)] \<rparr> of
           Inl e \<Rightarrow> Inr (PStr (''An error occurred: '' @ exn_text e))
         | Inr [] \<Rightarrow> Inr (PStr (''An error occurred: '' @ ''list index out of range''))
         | Inr (content # choices) \<Rightarrow> Inr content)"
proof -
  let ?ud = "[(''expenses'', es), (''savings_jars'', js), (''reminders'', rs)]"
  let ?c = "build_context fmt ?ud"
  note ud = get_user_data_Some [OF assms]
  have 1: "map_option (build_context fmt) (get_user_data get tok) = Some ?c"
    using ud by simp
  have 2: "es = PList [] \<and> js = PList [] \<and> rs = PList [] \<longrightarrow> ?c =
          ''User Information: \<newline>Expenses: []\<newline>Savings Jars: []\<newline>Reminders: []\<newline>Please use this information to respond to the user's query.\<newline>''"
    unfolding build_context_eq by (simp add: py_str_empty_list)
  have 3: "generate_ai_response fmt (Some k) create get q tok =
        (case create \<lparr> model = ''gpt-4o'',
                       messages = [(''system'', ''You are a helpful personal finance assistant.''),
                                   (''user'', ?c @ ''User Query: '' @ q)] \<rparr> of
           Inl e \<Rightarrow> Inr (PStr (''An error occurred: '' @ exn_text e))
         | Inr [] \<Rightarrow> Inr (PStr (''An error occurred: '' @ ''list index out of range''))
         | Inr (content # choices) \<Rightarrow> Inr content)"
    unfolding generate_with_data [OF ud, of fmt k create q, simplified] chat_request_of_def
    by simp
  show ?thesis
    using 1 2 3 build_context_eq [of fmt es js rs] by blast
qed

theorem context_shape_witness:
  "generate_ai_response example_fmt (Some ''sk-test'') example_openai_echo example_requests_ok
       ''How much did I spend?'' example_token =
     Inr (PStr ''User Information: \<newline>Expenses: []\<newline>Savings Jars: []\<newline>Reminders: []\<newline>Please use this information to respond to the user's query.\<newline>User Query: How much did I spend?'')"
proof -
  from context_shape [of example_requests_ok example_token "PList []" "PList []" "PList []"
      example_fmt "''sk-test''" example_openai_echo "''How much did I spend?''", OF example_fetch_ok example_fetch_ok example_fetch_ok]
  obtain c where c: "c = ''User Information: \<newline>Expenses: []\<newline>Savings Jars: []\<newline>Reminders: []\<newline>Please use this information to respond to the user's query.\<newline>''"
    and g: "generate_ai_response example_fmt (Some ''sk-test'') example_openai_echo example_requests_ok
       ''How much did I spend?'' example_token =
        (case example_openai_echo \<lparr> model = ''gpt-4o'',
                       messages = [(''system'', ''You are a helpful personal finance assistant.''),
                                   (''user'', c @ ''User Query: '' @ ''How much did I spend?'')] \<rparr> of
           Inl e \<Rightarrow> Inr (PStr (''An error occurred: '' @ exn_text e))
         | Inr [] \<Rightarrow> Inr (PStr (''An error occurred: '' @ ''list index out of range''))
         | Inr (content # choices) \<Rightarrow> Inr content)"
    by blast
  show ?thesis unfolding g c by (simp add: example_openai_echo_def)
qed

end
